theory Spec2Isabelle
  imports Complex_Main "HOL-Library.Sublist"
begin

text \<open>
  A model of the API server \<open>server/index.ts\<close>: the function \<open>filterAndPaginate\<close>, the
  handler of \<open>GET /api/resources\<close> with its six provider branches and its fallback, and
  the handler of \<open>POST /api/chat\<close>. The handlers are functions of the process
  environment, of the request, and of the answers of the services they call. A thrown
  exception is the left summand of a sum, so that every \<open>catch\<close> of the source is a case
  distinction of the model.
\<close>

section \<open>JavaScript values used by the server\<close>

subsection \<open>Numbers\<close>

text \<open>
  A JavaScript number is a finite value, one of the two infinities, or NaN. Finite values
  are kept as exact rationals: the handler only adds, multiplies and divides page numbers,
  page sizes and list lengths, and on integers below \<open>2^53\<close> these operations are exact
  in double precision. Rounding of larger or fractional doubles is not modelled, and
  negative zero is identified with zero (\<open>Fin 0\<close> stands for \<open>+0\<close>).
\<close>

datatype jsnum = Fin rat | PosInf | NegInf | NaN

fun js_neg :: "jsnum \<Rightarrow> jsnum" where
  "js_neg (Fin a) = Fin (- a)"
| "js_neg PosInf = NegInf"
| "js_neg NegInf = PosInf"
| "js_neg NaN = NaN"

fun js_add :: "jsnum \<Rightarrow> jsnum \<Rightarrow> jsnum" where
  "js_add (Fin a) (Fin b) = Fin (a + b)"
| "js_add NaN _ = NaN"
| "js_add _ NaN = NaN"
| "js_add PosInf NegInf = NaN"
| "js_add NegInf PosInf = NaN"
| "js_add PosInf _ = PosInf"
| "js_add _ PosInf = PosInf"
| "js_add NegInf _ = NegInf"
| "js_add _ NegInf = NegInf"

definition js_sub :: "jsnum \<Rightarrow> jsnum \<Rightarrow> jsnum" where
  "js_sub a b = js_add a (js_neg b)"

fun js_mul :: "jsnum \<Rightarrow> jsnum \<Rightarrow> jsnum" where
  "js_mul (Fin a) (Fin b) = Fin (a * b)"
| "js_mul NaN _ = NaN"
| "js_mul _ NaN = NaN"
| "js_mul (Fin a) b = (if a = 0 then NaN else if 0 < a then b else js_neg b)"
| "js_mul a (Fin b) = (if b = 0 then NaN else if 0 < b then a else js_neg a)"
| "js_mul a b = (if a = b then PosInf else NegInf)"

fun js_div :: "jsnum \<Rightarrow> jsnum \<Rightarrow> jsnum" where
  "js_div (Fin a) (Fin b) =
     (if b = 0 then (if a = 0 then NaN else if 0 < a then PosInf else NegInf)
      else Fin (a / b))"
| "js_div NaN _ = NaN"
| "js_div _ NaN = NaN"
| "js_div (Fin a) _ = Fin 0"
| "js_div a (Fin b) = (if 0 \<le> b then a else js_neg a)"
| "js_div _ _ = NaN"

text \<open>\<open>Math.floor\<close>, \<open>Math.ceil\<close>, \<open>Math.max\<close>, \<open>Math.min\<close>: the infinities and NaN pass
  through \<open>floor\<close> and \<open>ceil\<close>; \<open>max\<close> and \<open>min\<close> are NaN as soon as one argument is.\<close>

fun js_floor :: "jsnum \<Rightarrow> jsnum" where
  "js_floor (Fin a) = Fin (of_int \<lfloor>a\<rfloor>)"
| "js_floor x = x"

fun js_ceil :: "jsnum \<Rightarrow> jsnum" where
  "js_ceil (Fin a) = Fin (of_int \<lceil>a\<rceil>)"
| "js_ceil x = x"

fun js_max :: "jsnum \<Rightarrow> jsnum \<Rightarrow> jsnum" where
  "js_max (Fin a) (Fin b) = Fin (max a b)"
| "js_max NaN _ = NaN"
| "js_max _ NaN = NaN"
| "js_max PosInf _ = PosInf"
| "js_max _ PosInf = PosInf"
| "js_max NegInf b = b"
| "js_max a NegInf = a"

fun js_min :: "jsnum \<Rightarrow> jsnum \<Rightarrow> jsnum" where
  "js_min (Fin a) (Fin b) = Fin (min a b)"
| "js_min NaN _ = NaN"
| "js_min _ NaN = NaN"
| "js_min NegInf _ = NegInf"
| "js_min _ NegInf = NegInf"
| "js_min PosInf b = b"
| "js_min a PosInf = a"

text \<open>The comparisons \<open>a < b\<close> and \<open>a <= b\<close>; every comparison with NaN is false.
  \<open>a > b\<close> is \<open>js_lt b a\<close>.\<close>

fun js_lt :: "jsnum \<Rightarrow> jsnum \<Rightarrow> bool" where
  "js_lt (Fin a) (Fin b) = (a < b)"
| "js_lt NaN _ = False"
| "js_lt _ NaN = False"
| "js_lt NegInf b = (b \<noteq> NegInf)"
| "js_lt a PosInf = (a \<noteq> PosInf)"
| "js_lt _ _ = False"

definition js_le :: "jsnum \<Rightarrow> jsnum \<Rightarrow> bool" where
  "js_le a b = (js_lt a b \<or> (a = b \<and> a \<noteq> NaN))"

text \<open>Truthiness of a number (\<open>n || d\<close>, \<open>if (n)\<close>): zero and NaN are falsy.\<close>

fun js_truthy :: "jsnum \<Rightarrow> bool" where
  "js_truthy (Fin a) = (a \<noteq> 0)"
| "js_truthy NaN = False"
| "js_truthy _ = True"

definition js_or :: "jsnum \<Rightarrow> jsnum \<Rightarrow> jsnum" where
  "js_or n d = (if js_truthy n then n else d)"

text \<open>\<open>Number.isFinite\<close>.\<close>

fun js_isFinite :: "jsnum \<Rightarrow> bool" where
  "js_isFinite (Fin a) = True"
| "js_isFinite _ = False"

abbreviation num :: "int \<Rightarrow> jsnum" where
  "num k \<equiv> Fin (of_int k)"

abbreviation len :: "'a list \<Rightarrow> jsnum" where
  "len xs \<equiv> Fin (of_nat (length xs))"

subsection \<open>Arrays\<close>

text \<open>
  \<open>Array.prototype.slice(start, end)\<close>: each bound is converted by ToIntegerOrInfinity
  (NaN becomes 0, a fraction is truncated towards zero), a negative bound counts from the
  end of the array, and both are clamped into \<open>0 .. length\<close>.
\<close>

definition js_trunc :: "rat \<Rightarrow> int" where
  "js_trunc r = (if 0 \<le> r then \<lfloor>r\<rfloor> else \<lceil>r\<rceil>)"

fun relativeIndex :: "nat \<Rightarrow> jsnum \<Rightarrow> nat" where
  "relativeIndex n NaN = 0"
| "relativeIndex n NegInf = 0"
| "relativeIndex n PosInf = n"
| "relativeIndex n (Fin r) =
     (let k = js_trunc r in if k < 0 then nat (max (int n + k) 0) else min (nat k) n)"

definition js_slice :: "'a list \<Rightarrow> jsnum \<Rightarrow> jsnum \<Rightarrow> 'a list" where
  "js_slice xs start end =
     (let k = relativeIndex (length xs) start;
          final = relativeIndex (length xs) end
      in take (final - k) (drop k xs))"

subsection \<open>Strings\<close>

text \<open>
  Strings are lists of characters. \<open>toLowerCase\<close> is modelled on the ASCII letters
  (other characters are left as they are); \<open>includes\<close> is the substring test;
  \<open>split\<close> cuts at every occurrence of the separator character and \<open>trim\<close> removes
  ASCII white space at both ends.
\<close>

definition lowerChar :: "char \<Rightarrow> char" where
  "lowerChar c =
     (case map_of (zip ''ABCDEFGHIJKLMNOPQRSTUVWXYZ'' ''abcdefghijklmnopqrstuvwxyz'') c of
        Some l \<Rightarrow> l
      | None \<Rightarrow> c)"

definition toLowerCase :: "string \<Rightarrow> string" where
  "toLowerCase s = map lowerChar s"

fun js_includes :: "string \<Rightarrow> string \<Rightarrow> bool" where
  "js_includes [] q = (q = [])"
| "js_includes (c # cs) q = (prefix q (c # cs) \<or> js_includes cs q)"

fun endsWith :: "string \<Rightarrow> string \<Rightarrow> bool" where
  "endsWith s q = prefix (rev q) (rev s)"

fun split :: "char \<Rightarrow> string \<Rightarrow> string list" where
  "split sep [] = [[]]"
| "split sep (c # cs) =
     (if c = sep then [] # split sep cs
      else (case split sep cs of [] \<Rightarrow> [[c]] | w # ws \<Rightarrow> (c # w) # ws))"

definition isSpace :: "char \<Rightarrow> bool" where
  "isSpace c = (c \<in> set [CHR '' '', CHR 0x09, CHR 0x0A, CHR 0x0B, CHR 0x0C, CHR 0x0D])"

definition trim :: "string \<Rightarrow> string" where
  "trim s = rev (dropWhile isSpace (rev (dropWhile isSpace s)))"

text \<open>Truthiness of an optional string: \<open>undefined\<close> and the empty string are falsy.
  \<open>a || b\<close> on optional strings keeps the first truthy operand, else the last one.\<close>

fun truthy :: "string option \<Rightarrow> bool" where
  "truthy None = False"
| "truthy (Some s) = (s \<noteq> [])"

definition or_else :: "string option \<Rightarrow> string option \<Rightarrow> string option" where
  "or_else a b = (if truthy a then a else b)"

definition or_str :: "string option \<Rightarrow> string \<Rightarrow> string" where
  "or_str a d = (case a of Some s \<Rightarrow> (if s \<noteq> [] then s else d) | None \<Rightarrow> d)"

section \<open>Resources\<close>

text \<open>The interface \<open>Resource\<close>. The fields \<open>id\<close> and \<open>type\<close> carry a suffix, their
  names being taken in HOL.\<close>

record Resource =
  id_r :: string
  title :: string
  description :: string
  url :: string
  type_r :: string
  language :: string
  framework :: "string option"
  difficulty :: string
  tags :: "string list"
  author :: "string option"
  rating :: "rat option"
  bookmarked :: "bool option"

definition fallbackData :: "Resource list" where
  "fallbackData =
   [ \<lparr> id_r = ''ex1'',
       title = ''React Official Docs'',
       description = ''The official React documentation with guides and API references.'',
       url = ''https://react.dev/learn'',
       type_r = ''doc'',
       language = ''javascript'',
       framework = Some ''react'',
       difficulty = ''beginner'',
       tags = [''official'', ''docs''],
       author = Some ''React Team'',
       rating = Some (49 / 10),
       bookmarked = None \<rparr>,
     \<lparr> id_r = ''ex2'',
       title = ''Docker Deep Dive'',
       description = ''A comprehensive guide to Docker concepts and best practices.'',
       url = ''https://docs.docker.com/'',
       type_r = ''doc'',
       language = ''docker'',
       framework = None,
       difficulty = ''intermediate'',
       tags = [''containers'', ''devops''],
       author = None,
       rating = Some (47 / 10),
       bookmarked = None \<rparr> ]"

section \<open>The paginated result\<close>

record PaginatedResult =
  items :: "Resource list"
  total :: jsnum
  page :: jsnum
  pageSize :: jsnum
  totalPages :: jsnum

section \<open>filterAndPaginate\<close>

text \<open>
  The options of \<open>filterAndPaginate\<close> are optional in the source; \<open>page\<close> and
  \<open>pageSize\<close> default to 1 and 12 when undefined. A string option is applied when it is
  truthy (and, for the four exact-match filters, different from \<open>all\<close>); the tag option
  when the array is non-empty.
\<close>

record Options =
  o_query :: "string option"
  o_type :: "string option"
  o_language :: "string option"
  o_framework :: "string option"
  o_difficulty :: "string option"
  o_tags :: "string list option"
  o_page :: "jsnum option"
  o_pageSize :: "jsnum option"

definition activeStr :: "string \<Rightarrow> bool" where
  "activeStr t = (t \<noteq> [] \<and> t \<noteq> ''all'')"

definition matchesQuery :: "string \<Rightarrow> Resource \<Rightarrow> bool" where
  "matchesQuery q r =
     (js_includes (toLowerCase (title r)) q \<or>
      js_includes (toLowerCase (description r)) q \<or>
      list_ex (\<lambda>t. js_includes (toLowerCase t) q) (tags r))"

definition matchesTags :: "string list \<Rightarrow> Resource \<Rightarrow> bool" where
  "matchesTags ts r = list_ex (\<lambda>t. t \<in> set (tags r)) ts"

text \<open>The filter stage of \<open>filterAndPaginate\<close>: six conditional passes over a copy of the
  data, in the order of the source.\<close>

definition applyFilters :: "Resource list \<Rightarrow> Options \<Rightarrow> Resource list" where
  "applyFilters data opts =
     (let filtered = data;
          filtered = (case o_query opts of
                        Some query \<Rightarrow>
                          if query \<noteq> []
                          then (let q = toLowerCase query in filter (matchesQuery q) filtered)
                          else filtered
                      | None \<Rightarrow> filtered);
          filtered = (case o_type opts of
                        Some t \<Rightarrow>
                          if activeStr t then filter (\<lambda>r. type_r r = t) filtered else filtered
                      | None \<Rightarrow> filtered);
          filtered = (case o_language opts of
                        Some l \<Rightarrow>
                          if activeStr l then filter (\<lambda>r. language r = l) filtered else filtered
                      | None \<Rightarrow> filtered);
          filtered = (case o_framework opts of
                        Some f \<Rightarrow>
                          if activeStr f then filter (\<lambda>r. framework r = Some f) filtered
                          else filtered
                      | None \<Rightarrow> filtered);
          filtered = (case o_difficulty opts of
                        Some d \<Rightarrow>
                          if activeStr d then filter (\<lambda>r. difficulty r = d) filtered
                          else filtered
                      | None \<Rightarrow> filtered);
          filtered = (case o_tags opts of
                        Some ts \<Rightarrow>
                          if 0 < length ts then filter (matchesTags ts) filtered else filtered
                      | None \<Rightarrow> filtered)
      in filtered)"

text \<open>The conjunction of the six tests, as one predicate on a resource.\<close>

definition keeps :: "Options \<Rightarrow> Resource \<Rightarrow> bool" where
  "keeps opts r =
     ((case o_query opts of
         Some query \<Rightarrow> query \<noteq> [] \<longrightarrow> matchesQuery (toLowerCase query) r
       | None \<Rightarrow> True) \<and>
      (case o_type opts of Some t \<Rightarrow> activeStr t \<longrightarrow> type_r r = t | None \<Rightarrow> True) \<and>
      (case o_language opts of Some l \<Rightarrow> activeStr l \<longrightarrow> language r = l | None \<Rightarrow> True) \<and>
      (case o_framework opts of
         Some f \<Rightarrow> activeStr f \<longrightarrow> framework r = Some f
       | None \<Rightarrow> True) \<and>
      (case o_difficulty opts of
         Some d \<Rightarrow> activeStr d \<longrightarrow> difficulty r = d
       | None \<Rightarrow> True) \<and>
      (case o_tags opts of Some ts \<Rightarrow> 0 < length ts \<longrightarrow> matchesTags ts r | None \<Rightarrow> True))"

definition filterAndPaginate :: "Resource list \<Rightarrow> Options \<Rightarrow> PaginatedResult" where
  "filterAndPaginate data opts =
     (let page = (case o_page opts of None \<Rightarrow> num 1 | Some p \<Rightarrow> p);
          pageSize = (case o_pageSize opts of None \<Rightarrow> num 12 | Some s \<Rightarrow> s);
          filtered = applyFilters data opts;
          total = len filtered;
          start = js_mul (js_sub page (num 1)) pageSize;
          end = js_add start pageSize;
          items = js_slice filtered start end
      in \<lparr> items = items, total = total, page = page, pageSize = pageSize,
           totalPages = js_max (num 1) (js_ceil (js_div total pageSize)) \<rparr>)"

section \<open>Provider items and their normalisation\<close>

text \<open>
  The provider responses are untyped JSON in the source. Each is modelled by a record of
  the fields the handler reads; a field that is absent (or not of the expected kind) is
  \<open>None\<close>.
\<close>

subsection \<open>The article feed\<close>

record Article =
  a_id :: string
  a_title :: "string option"
  a_description :: "string option"
  a_body_text :: "string option"
  a_canonical_url :: "string option"
  a_url :: "string option"
  a_path :: "string option"
  a_tag_list :: "string list option"
  a_tags :: "string option"
  a_user_name :: "string option"
  a_user_username :: "string option"

definition detectTypeFromUrl :: "string option \<Rightarrow> string" where
  "detectTypeFromUrl url' =
     (case url' of
        None \<Rightarrow> ''article''
      | Some s \<Rightarrow>
          if s = [] then ''article''
          else
            let u = toLowerCase s in
            if endsWith u ''.pdf'' \<or> js_includes u ''.pdf?'' then ''pdf''
            else if js_includes u ''youtube.com'' \<or> js_includes u ''youtu.be'' \<or>
                    js_includes u ''vimeo.com'' \<or> js_includes u ''dailymotion.com''
                 then ''video''
            else if js_includes u ''/docs'' \<or> js_includes u ''docs.'' \<or>
                    js_includes u ''developer.mozilla.org'' \<or> js_includes u ''nodejs.org'' \<or>
                    js_includes u ''react.dev'' \<or> js_includes u ''angular.io'' \<or>
                    js_includes u ''vuejs.org''
                 then ''doc''
            else ''article'')"

definition mapDevToArticleToResource :: "Article \<Rightarrow> Resource" where
  "mapDevToArticleToResource article =
     (let primaryUrl =
            or_else (a_canonical_url article)
              (or_else (a_url article)
                 (case a_path article of
                    Some p \<Rightarrow> if p \<noteq> [] then Some (''https://dev.to'' @ p) else None
                  | None \<Rightarrow> None));
          type = detectTypeFromUrl primaryUrl
      in \<lparr> id_r = a_id article,
           title = (case a_title article of Some t \<Rightarrow> t | None \<Rightarrow> ''Untitled''),
           description = or_str (or_else (a_description article) (a_body_text article)) [],
           url = or_str primaryUrl ''#'',
           type_r = type,
           language = ''general'',
           framework = None,
           difficulty = ''intermediate'',
           tags = (case a_tag_list article of
                     Some ts \<Rightarrow> ts
                   | None \<Rightarrow>
                       (case a_tags article of
                          Some s \<Rightarrow> filter (\<lambda>t. t \<noteq> []) (map trim (split CHR '','' s))
                        | None \<Rightarrow> [])),
           author = (let a = or_else (a_user_name article) (a_user_username article)
                     in if truthy a then a else None),
           rating = None,
           bookmarked = None \<rparr>)"

text \<open>The body of an article-feed response: an array, or an object with one of the
  array fields \<open>items\<close>, \<open>result\<close>, \<open>results\<close>.\<close>

datatype DevtoData =
    DataArray "Article list"
  | DataObject "Article list option" "Article list option" "Article list option"

subsection \<open>The video search\<close>

record Snippet =
  s_title :: "string option"
  s_description :: "string option"
  channelTitle :: "string option"

record YtItem =
  videoId :: "string option"
  snippet :: "Snippet option"

record YtData =
  yt_items :: "YtItem list option"
  nextPageToken :: "string option"

text \<open>An item is kept when it has a truthy \<open>videoId\<close> and a snippet.\<close>

fun mapYouTube :: "YtItem list \<Rightarrow> Resource list" where
  "mapYouTube [] = []"
| "mapYouTube (it # itemsRaw) =
     (case (videoId it, snippet it) of
        (Some v, Some sn) \<Rightarrow>
          if v \<noteq> [] then
            \<lparr> id_r = v,
              title = or_str (s_title sn) ''Untitled'',
              description = or_str (s_description sn) [],
              url = ''https://www.youtube.com/watch?v='' @ v,
              type_r = ''video'',
              language = ''general'',
              framework = None,
              difficulty = ''intermediate'',
              tags = [],
              author = channelTitle sn,
              rating = None,
              bookmarked = None \<rparr> # mapYouTube itemsRaw
          else mapYouTube itemsRaw
      | _ \<Rightarrow> mapYouTube itemsRaw)"

subsection \<open>The book search\<close>

record VolumeInfo =
  v_title :: "string option"
  v_subtitle :: "string option"
  v_description :: "string option"
  v_language :: "string option"
  v_infoLink :: "string option"
  v_canonicalVolumeLink :: "string option"
  v_authors :: "string list option"
  v_categories :: "string list option"
  v_identifier :: "string option"

record AccessInfo =
  pdf_isAvailable :: bool
  pdf_downloadLink :: "string option"
  epub_isAvailable :: bool
  epub_downloadLink :: "string option"
  webReaderLink :: "string option"

record GbItem =
  g_id :: "string option"
  volumeInfo :: "VolumeInfo option"
  accessInfo :: "AccessInfo option"

record GbData =
  totalItems :: "jsnum option"
  gb_items :: "GbItem list option"

definition noVolume :: VolumeInfo where
  "noVolume = \<lparr> v_title = None, v_subtitle = None, v_description = None, v_language = None,
       v_infoLink = None, v_canonicalVolumeLink = None, v_authors = None,
       v_categories = None, v_identifier = None \<rparr>"

definition noAccess :: AccessInfo where
  "noAccess = \<lparr> pdf_isAvailable = False, pdf_downloadLink = None, epub_isAvailable = False,
       epub_downloadLink = None, webReaderLink = None \<rparr>"

text \<open>\<open>String(x)\<close> of an optional string: \<open>undefined\<close> is rendered as such.\<close>

definition String_of :: "string option \<Rightarrow> string" where
  "String_of x = (case x of Some s \<Rightarrow> s | None \<Rightarrow> ''undefined'')"

definition mapGoogleBook :: "GbItem \<Rightarrow> Resource" where
  "mapGoogleBook it =
     (let vol = (case volumeInfo it of Some v \<Rightarrow> v | None \<Rightarrow> noVolume);
          access = (case accessInfo it of Some a \<Rightarrow> a | None \<Rightarrow> noAccess);
          pdfAvailable = pdf_isAvailable access;
          infoLink = or_else (v_infoLink vol)
                       (or_else (webReaderLink access) (v_canonicalVolumeLink vol));
          downloadLink = or_else (pdf_downloadLink access)
                           (or_else (epub_downloadLink access) infoLink);
          authors = (case v_authors vol of Some as \<Rightarrow> as | None \<Rightarrow> [])
      in \<lparr> id_r = String_of (or_else (g_id it)
                        (or_else (v_identifier vol) (or_else infoLink (v_title vol)))),
           title = or_str (v_title vol) ''Untitled'',
           description = or_str (or_else (v_subtitle vol) (v_description vol)) [],
           url = or_str (or_else downloadLink infoLink) ''#'',
           type_r = (if pdfAvailable then ''pdf'' else ''book''),
           language = or_str (v_language vol) ''general'',
           framework = None,
           difficulty = ''intermediate'',
           tags = (case v_categories vol of Some cs \<Rightarrow> take 5 cs | None \<Rightarrow> []),
           author = (case authors of a # _ \<Rightarrow> Some a | [] \<Rightarrow> None),
           rating = None,
           bookmarked = None \<rparr>)"

subsection \<open>The free-book listing\<close>

record Book =
  b_id :: "string option"
  b_isbn :: "string option"
  b_title :: "string option"
  b_name :: "string option"
  b_bookTitle :: "string option"
  b_description :: "string option"
  b_desc :: "string option"
  b_summary :: "string option"
  b_url :: "string option"
  b_link :: "string option"
  b_bookLink :: "string option"
  b_download :: "string option"
  b_source :: "string option"
  b_author :: "string option"
  b_writer :: "string option"
  b_creator :: "string option"
  b_genre :: "string option"
  b_category :: "string option"

datatype FbData =
    FbArray "Book list"
  | FbObject "Book list option" "Book list option"

text \<open>The mapper of the free-book branch. It receives the index of the book in the page
  and builds a default identifier from the genre, the page number and that index; the
  rendering of a number as text is the runtime's and is passed in.\<close>

definition mapFreeBook ::
  "(jsnum \<Rightarrow> string) \<Rightarrow> string \<Rightarrow> jsnum \<Rightarrow> Book \<times> nat \<Rightarrow> Resource" where
  "mapFreeBook numberToString genre pageNum bi =
     (let b = fst bi; idx = snd bi;
          title = or_str (or_else (b_title b) (or_else (b_name b) (b_bookTitle b))) ''Untitled'';
          description = or_str (or_else (b_description b) (or_else (b_desc b) (b_summary b))) [];
          link = or_str (or_else (b_url b) (or_else (b_link b) (or_else (b_bookLink b)
                   (or_else (b_download b) (b_source b))))) ''#'';
          author = (let a = or_else (b_author b) (or_else (b_writer b) (b_creator b))
                    in if truthy a then a else None);
          tagsOut = [];
          tagsOut = (case b_genre b of
                       Some g \<Rightarrow> if g \<noteq> [] then tagsOut @ [g] else tagsOut
                     | None \<Rightarrow> tagsOut);
          tagsOut = (case b_category b of
                       Some c \<Rightarrow> if c \<noteq> [] then tagsOut @ [c] else tagsOut
                     | None \<Rightarrow> tagsOut)
      in \<lparr> id_r = or_str (or_else (b_id b) (b_isbn b))
                    (genre @ ''-'' @ numberToString pageNum @ ''-'' @
                     numberToString (Fin (of_nat idx))),
           title = title,
           description = description,
           url = link,
           type_r = ''book'',
           language = ''general'',
           framework = None,
           difficulty = ''intermediate'',
           tags = tagsOut,
           author = author,
           rating = None,
           bookmarked = None \<rparr>)"

subsection \<open>The library search\<close>

record Doc =
  d_key :: "string option"
  d_cover_edition_key :: "string option"
  d_edition_key0 :: "string option"
  d_title :: "string option"
  d_first_sentence :: "string option"
  d_subtitle :: "string option"
  d_language :: "string list option"
  d_subject :: "string list option"
  d_author_name :: "string list option"

record OlData =
  docs :: "Doc list option"
  numFound :: "jsnum option"

definition mapOpenLibrary :: "Doc \<Rightarrow> Resource" where
  "mapOpenLibrary d =
     (let key = d_key d;
          url = (case key of
                   Some k \<Rightarrow> if k \<noteq> [] then ''https://openlibrary.org'' @ k else ''#''
                 | None \<Rightarrow> ''#'');
          language = (case d_language d of Some (l # _) \<Rightarrow> l | _ \<Rightarrow> ''general'');
          subjects = (case d_subject d of Some ss \<Rightarrow> take 5 ss | None \<Rightarrow> []);
          author = (case d_author_name d of Some (a # _) \<Rightarrow> Some a | _ \<Rightarrow> None);
          description = (case d_first_sentence d of
                           Some f \<Rightarrow> if f \<noteq> [] then f else or_str (d_subtitle d) []
                         | None \<Rightarrow> or_str (d_subtitle d) [])
      in \<lparr> id_r = String_of (or_else (d_key d) (or_else (d_cover_edition_key d)
                        (or_else (d_edition_key0 d) (d_title d)))),
           title = or_str (d_title d) ''Untitled'',
           description = description,
           url = url,
           type_r = ''book'',
           language = language,
           framework = None,
           difficulty = ''intermediate'',
           tags = subjects,
           author = author,
           rating = None,
           bookmarked = None \<rparr>)"

section \<open>The environment, the request and the outside world\<close>

text \<open>The process environment: every variable the two handlers read.\<close>

record Env =
  RESOURCE_API_KEY :: "string option"
  API_KEY :: "string option"
  OPENAI_API_KEY :: "string option"
  GENAI_API_KEY :: "string option"
  RESOURCE_API_URL :: "string option"
  YOUTUBE_API_KEY :: "string option"
  GOOGLE_BOOKS_API_KEY :: "string option"
  RAPIDAPI_KEY :: "string option"
  GEMINI_API_KEY :: "string option"
  GOOGLE_API_KEY :: "string option"
  CHATBOT_MOCK_ON_FAILURE :: "string option"

text \<open>
  The query string of \<open>GET /api/resources\<close>. A scalar parameter is absent or a string;
  \<open>tags\<close> may also be repeated, which the framework hands over as an array. For \<open>page\<close>
  and \<open>pageSize\<close> the record holds \<open>None\<close> when the parameter is absent or empty (the
  handler then takes its default) and otherwise the value of \<open>Number(s)\<close> for the
  parameter string \<open>s\<close>: \<open>Fin 0\<close> for \<open>0\<close>, \<open>Fin (-5)\<close> for \<open>-5\<close>, \<open>NaN\<close> for \<open>abc\<close>.
\<close>

datatype TagsParam = TagsArray "string list" | TagsString string | TagsAbsent

record Query =
  q_provider :: "string option"
  q_query :: "string option"
  q_type :: "string option"
  q_language :: "string option"
  q_framework :: "string option"
  q_difficulty :: "string option"
  q_tags :: TagsParam
  q_page :: "jsnum option"
  q_pageSize :: "jsnum option"

text \<open>
  An outgoing request either fails (network error, timeout, a status outside 2xx, a body
  the handler cannot read) or yields a body. The answers of the five catalogues are
  functions of the request, one per catalogue; \<open>numberToString\<close> is the runtime's
  rendering of a number inside a template string.
\<close>

datatype error = Error string | AxiosError "nat option"

datatype pval = S string | N jsnum | U

type_synonym params = "(string \<times> pval) list"
type_synonym headers = "(string \<times> string) list"

record externals =
  devto_get :: "string \<Rightarrow> params \<Rightarrow> headers \<Rightarrow> error + DevtoData"
  youtube_get :: "params \<Rightarrow> error + YtData"
  books_get :: "params \<Rightarrow> error + GbData"
  freebooks_get :: "string \<Rightarrow> jsnum \<Rightarrow> headers \<Rightarrow> error + FbData"
  openlibrary_get :: "params \<Rightarrow> error + OlData"
  numberToString :: "jsnum \<Rightarrow> string"

datatype Response = Json nat PaginatedResult | JsonError nat string

section \<open>The handler of GET /api/resources\<close>

subsection \<open>Reading the query string\<close>

definition reqProvider :: "Query \<Rightarrow> string" where
  "reqProvider req = toLowerCase (or_str (q_provider req) [])"

definition reqQuery :: "Query \<Rightarrow> string" where
  "reqQuery req = or_str (q_query req) []"

definition reqType :: "Query \<Rightarrow> string" where
  "reqType req = or_str (q_type req) ''all''"

definition reqLanguage :: "Query \<Rightarrow> string" where
  "reqLanguage req = or_str (q_language req) ''all''"

definition reqFramework :: "Query \<Rightarrow> string" where
  "reqFramework req = or_str (q_framework req) ''all''"

definition reqDifficulty :: "Query \<Rightarrow> string" where
  "reqDifficulty req = or_str (q_difficulty req) ''all''"

definition reqTags :: "Query \<Rightarrow> string list" where
  "reqTags req =
     (case q_tags req of
        TagsArray ts \<Rightarrow> ts
      | TagsString s \<Rightarrow> if s \<noteq> [] then split CHR '','' s else []
      | TagsAbsent \<Rightarrow> [])"

definition reqPage :: "Query \<Rightarrow> jsnum" where
  "reqPage req = (case q_page req of Some n \<Rightarrow> n | None \<Rightarrow> num 1)"

definition reqPageSize :: "Query \<Rightarrow> jsnum" where
  "reqPageSize req = (case q_pageSize req of Some n \<Rightarrow> n | None \<Rightarrow> num 12)"

text \<open>\<open>tags[0] || d\<close>.\<close>

definition firstTagOr :: "string list \<Rightarrow> string \<Rightarrow> string" where
  "firstTagOr ts d = (case ts of t # _ \<Rightarrow> if t \<noteq> [] then t else d | [] \<Rightarrow> d)"

definition typeFilter :: "string \<Rightarrow> Resource list \<Rightarrow> Resource list" where
  "typeFilter t mapped = (if activeStr t then filter (\<lambda>r. type_r r = t) mapped else mapped)"

subsection \<open>Mixed mode\<close>

definition mixedQ :: "Query \<Rightarrow> string" where
  "mixedQ req = (if reqQuery req \<noteq> [] then reqQuery req else firstTagOr (reqTags req) ''programming'')"

definition mixedMaxPerSource :: "Query \<Rightarrow> jsnum" where
  "mixedMaxPerSource req =
     js_max (num 1) (js_floor (js_div (js_or (reqPageSize req) (num 12)) (num 3)))"

definition mixedDevToParams :: "Query \<Rightarrow> params" where
  "mixedDevToParams req =
     (let q = mixedQ req; maxPerSource = mixedMaxPerSource req
      in if q \<noteq> []
         then [(''page'', N (reqPage req)), (''per_page'', N maxPerSource), (''q'', S q)]
         else [(''page'', N (reqPage req)), (''per_page'', N maxPerSource)])"

definition mixedDevTo :: "Env \<Rightarrow> externals \<Rightarrow> Query \<Rightarrow> Resource list" where
  "mixedDevTo env ext req =
     (let q = mixedQ req;
          headers = [(''Content-Type'', ''application/json'')];
          headers = (case RESOURCE_API_KEY env of
                       Some k \<Rightarrow> if k \<noteq> [] then headers @ [(''api-key'', k)] else headers
                     | None \<Rightarrow> headers)
      in case devto_get ext
                (''https://dev.to/api/'' @ (if q \<noteq> [] then ''search/articles'' else ''articles''))
                (mixedDevToParams req) headers of
           Inl e \<Rightarrow> []
         | Inr data \<Rightarrow>
             (let itemsRaw =
                    (case data of
                       DataArray xs \<Rightarrow> xs
                     | DataObject its res ress \<Rightarrow>
                         (case its of Some xs \<Rightarrow> xs | None \<Rightarrow>
                          (case res of Some xs \<Rightarrow> xs | None \<Rightarrow>
                           (case ress of Some xs \<Rightarrow> xs | None \<Rightarrow> []))))
              in map mapDevToArticleToResource itemsRaw))"

definition mixedYouTubeParams :: "string \<Rightarrow> Query \<Rightarrow> params" where
  "mixedYouTubeParams youtubeKey req =
     [(''key'', S youtubeKey), (''part'', S ''snippet''), (''q'', S (mixedQ req)),
      (''type'', S ''video''), (''maxResults'', N (mixedMaxPerSource req))]"

definition mixedYouTube :: "string \<Rightarrow> externals \<Rightarrow> Query \<Rightarrow> Resource list" where
  "mixedYouTube youtubeKey ext req =
     (case youtube_get ext (mixedYouTubeParams youtubeKey req) of
        Inl e \<Rightarrow> []
      | Inr data \<Rightarrow>
          (let itemsRaw = (case yt_items data of Some xs \<Rightarrow> xs | None \<Rightarrow> [])
           in mapYouTube itemsRaw))"

definition mixedBooksParams :: "Env \<Rightarrow> Query \<Rightarrow> params" where
  "mixedBooksParams env req =
     (let maxPerSource = mixedMaxPerSource req
      in [(''q'', S (mixedQ req)), (''printType'', S ''books''), (''maxResults'', N maxPerSource),
          (''startIndex'', N (js_max (num 0) (js_mul (js_sub (reqPage req) (num 1)) maxPerSource))),
          (''key'', (case GOOGLE_BOOKS_API_KEY env of Some k \<Rightarrow> S k | None \<Rightarrow> U))])"

definition mixedBooks :: "Env \<Rightarrow> externals \<Rightarrow> Query \<Rightarrow> Resource list" where
  "mixedBooks env ext req =
     (case books_get ext (mixedBooksParams env req) of
        Inl e \<Rightarrow> []
      | Inr data \<Rightarrow>
          (let itemsRaw = (case gb_items data of Some xs \<Rightarrow> xs | None \<Rightarrow> [])
           in map mapGoogleBook itemsRaw))"

text \<open>The de-duplication loop: \<open>seen\<close> is the set of addresses met so far; a resource is
  appended to the output when its address is new.\<close>

fun dedupe :: "string set \<Rightarrow> Resource list \<Rightarrow> Resource list" where
  "dedupe seen [] = []"
| "dedupe seen (r # merged) =
     (let k = url r
      in if k \<notin> seen then r # dedupe (insert k seen) merged else dedupe seen merged)"

definition mixedResults :: "Env \<Rightarrow> externals \<Rightarrow> Query \<Rightarrow> Resource list list" where
  "mixedResults env ext req =
     (let tasks = [mixedDevTo env ext req];
          tasks = (case YOUTUBE_API_KEY env of
                     Some youtubeKey \<Rightarrow>
                       if youtubeKey \<noteq> [] then tasks @ [mixedYouTube youtubeKey ext req]
                       else tasks
                   | None \<Rightarrow> tasks);
          tasks = tasks @ [mixedBooks env ext req]
      in tasks)"

definition mixedFeed :: "Env \<Rightarrow> externals \<Rightarrow> Query \<Rightarrow> PaginatedResult" where
  "mixedFeed env ext req =
     (let results = mixedResults env ext req;
          merged = concat results;
          unique = dedupe {} merged;
          items = js_slice unique (num 0) (reqPageSize req)
      in \<lparr> items = items, total = len items, page = reqPage req,
           pageSize = reqPageSize req, totalPages = num 1 \<rparr>)"

subsection \<open>The book search as the only provider\<close>

text \<open>The branch maps its items with the same fields and defaults as the book task of
  mixed mode, so \<open>mapGoogleBook\<close> serves both.\<close>

definition googlebooksMaxResults :: "Query \<Rightarrow> jsnum" where
  "googlebooksMaxResults req = js_max (num 1) (js_min (num 40) (reqPageSize req))"

definition googlebooksParams :: "Env \<Rightarrow> Query \<Rightarrow> params" where
  "googlebooksParams env req =
     (let query = reqQuery req; tags = reqTags req;
          q = (if query \<noteq> [] \<and> 0 < length query then query else firstTagOr tags ''programming'');
          maxResults = googlebooksMaxResults req;
          startIndex = js_max (num 0) (js_mul (js_sub (reqPage req) (num 1)) maxResults);
          gbParams = [(''q'', S q), (''printType'', S ''books''), (''maxResults'', N maxResults),
                      (''startIndex'', N startIndex),
                      (''key'', (case GOOGLE_BOOKS_API_KEY env of Some k \<Rightarrow> S k | None \<Rightarrow> U))]
      in if ''free'' \<in> set tags \<or> reqDifficulty req = ''beginner''
         then gbParams @ [(''filter'', S ''free-ebooks'')]
         else gbParams)"

definition googlebooks :: "Env \<Rightarrow> externals \<Rightarrow> Query \<Rightarrow> error + PaginatedResult" where
  "googlebooks env ext req =
     (case books_get ext (googlebooksParams env req) of
        Inl e \<Rightarrow> Inl e
      | Inr data \<Rightarrow>
          (let maxResults = googlebooksMaxResults req;
               totalItems = (case totalItems data of Some n \<Rightarrow> js_or n (num 0) | None \<Rightarrow> num 0);
               itemsRaw = (case gb_items data of Some xs \<Rightarrow> xs | None \<Rightarrow> []);
               mapped = map mapGoogleBook itemsRaw;
               filtered = typeFilter (reqType req) mapped;
               totalPages = js_max (num 1) (js_ceil (js_div totalItems maxResults))
           in Inr \<lparr> items = filtered, total = totalItems, page = reqPage req,
                    pageSize = maxResults, totalPages = totalPages \<rparr>))"

subsection \<open>The free-book listing\<close>

text \<open>\<open>replace(/\s+/g, '-')\<close>: every run of white space becomes one hyphen.\<close>

function replaceSpaces :: "string \<Rightarrow> string" where
  "replaceSpaces [] = []"
| "replaceSpaces (c # cs) =
     (if isSpace c then CHR ''-'' # replaceSpaces (dropWhile isSpace cs)
      else c # replaceSpaces cs)"
  by pat_completeness auto
termination
  by (relation "measure length") (auto simp: length_dropWhile_le less_Suc_eq_le)

definition freebooksGenre :: "Query \<Rightarrow> string" where
  "freebooksGenre req =
     (let tags = reqTags req; query = reqQuery req
      in replaceSpaces (toLowerCase
           (firstTagOr tags (if query \<noteq> [] then query else ''programming''))))"

text \<open>The request address ends in the genre and the page number; the listing is asked by
  these two and is not told a page size.\<close>

definition freebooks :: "Env \<Rightarrow> externals \<Rightarrow> Query \<Rightarrow> error + PaginatedResult" where
  "freebooks env ext req =
     (case RAPIDAPI_KEY env of
        None \<Rightarrow> Inl (Error ''RAPIDAPI_KEY is not set'')
      | Some rapidKey \<Rightarrow>
          if rapidKey = [] then Inl (Error ''RAPIDAPI_KEY is not set'')
          else
            let page = reqPage req; pageSize = reqPageSize req;
                genre = freebooksGenre req;
                pageNum = js_max (num 1) page
            in case freebooks_get ext genre pageNum
                      [(''x-rapidapi-host'', ''freebooks-api2.p.rapidapi.com''),
                       (''x-rapidapi-key'', rapidKey)] of
                 Inl e \<Rightarrow> Inl e
               | Inr data \<Rightarrow>
                   (let booksRaw =
                          (case data of
                             FbArray xs \<Rightarrow> xs
                           | FbObject d its \<Rightarrow>
                               (case d of Some xs \<Rightarrow> xs | None \<Rightarrow>
                                (case its of Some xs \<Rightarrow> xs | None \<Rightarrow> [])));
                        mapped = map (mapFreeBook (numberToString ext) genre pageNum)
                                   (zip booksRaw [0 ..< length booksRaw]);
                        filtered = typeFilter (reqType req) mapped;
                        hasNext = (0 < length filtered);
                        totalPages = (if hasNext then js_add page (num 1) else page);
                        total = js_add (js_add (js_mul (js_sub page (num 1)) pageSize)
                                          (len filtered))
                                  (if hasNext then num 1 else num 0)
                    in Inr \<lparr> items = filtered, total = total, page = page,
                             pageSize = pageSize, totalPages = totalPages \<rparr>))"

subsection \<open>The library search\<close>

definition openlibraryLimit :: "Query \<Rightarrow> jsnum" where
  "openlibraryLimit req = js_max (num 1) (js_min (num 50) (reqPageSize req))"

definition openlibraryParams :: "Query \<Rightarrow> params" where
  "openlibraryParams req =
     (let query = reqQuery req;
          q = (if query \<noteq> [] then query else firstTagOr (reqTags req) ''programming'')
      in [(''q'', S q), (''page'', N (reqPage req)), (''limit'', N (openlibraryLimit req))])"

definition openlibrary :: "externals \<Rightarrow> Query \<Rightarrow> error + PaginatedResult" where
  "openlibrary ext req =
     (case openlibrary_get ext (openlibraryParams req) of
        Inl e \<Rightarrow> Inl e
      | Inr data \<Rightarrow>
          (let page = reqPage req; limit = openlibraryLimit req;
               docs = (case docs data of Some ds \<Rightarrow> ds | None \<Rightarrow> []);
               mapped = map mapOpenLibrary docs;
               filtered = typeFilter (reqType req) mapped;
               numFound = (case numFound data of Some n \<Rightarrow> js_or n (num 0) | None \<Rightarrow> num 0);
               totalPages = js_max (num 1) (js_ceil (js_div numFound limit));
               safeTotalPages = (if js_isFinite totalPages \<and> js_lt (num 0) totalPages
                                 then totalPages else page)
           in Inr \<lparr> items = filtered, total = numFound, page = page,
                    pageSize = limit, totalPages = safeTotalPages \<rparr>))"

subsection \<open>The video search as the only provider\<close>

definition youtubeMaxResults :: "Query \<Rightarrow> jsnum" where
  "youtubeMaxResults req = js_max (num 1) (js_min (num 50) (reqPageSize req))"

definition youtubeQ :: "Query \<Rightarrow> string" where
  "youtubeQ req = (if reqQuery req \<noteq> [] then reqQuery req else ''programming tutorials'')"

definition youtubeBaseParams :: "string \<Rightarrow> Query \<Rightarrow> params" where
  "youtubeBaseParams youtubeKey req =
     [(''key'', S youtubeKey), (''part'', S ''snippet''), (''q'', S (youtubeQ req)),
      (''type'', S ''video''), (''maxResults'', N (youtubeMaxResults req))]"

definition withToken :: "params \<Rightarrow> string option \<Rightarrow> params" where
  "withToken ps currentToken =
     ps @ [(''pageToken'', (case currentToken of Some t \<Rightarrow> S t | None \<Rightarrow> U))]"

text \<open>
  The loop \<open>for (let i = 1; i < page; i++)\<close> that follows the continuation tokens. Its
  state is the counter and the current token. It leaves early when a response carries no
  token, and a failing request ends it with the error. With an infinite page number the
  loop runs as long as tokens keep coming, so it is a partial function: \<open>None\<close> is a
  loop that never ends.
\<close>

partial_function (option) walkTokens ::
  "(params \<Rightarrow> error + YtData) \<Rightarrow> params \<Rightarrow> jsnum \<Rightarrow> nat \<Rightarrow> string option
     \<Rightarrow> (error + string option) option" where
  "walkTokens get ps page' i currentToken =
     (if js_lt (Fin (of_nat i)) page' then
        (case get (withToken ps currentToken) of
           Inl e \<Rightarrow> Some (Inl e)
         | Inr r \<Rightarrow>
             if \<not> truthy (nextPageToken r) then Some (Inr (nextPageToken r))
             else walkTokens get ps page' (Suc i) (nextPageToken r))
      else Some (Inr currentToken))"

declare walkTokens.simps [code]

text \<open>The branch walks the tokens twice: the first walk only advances (its token is
  dropped), the second one keeps the last token for the final request.\<close>

definition youtubeFetch ::
  "externals \<Rightarrow> Query \<Rightarrow> params \<Rightarrow> error + PaginatedResult" where
  "youtubeFetch ext req fetchParams =
     (case youtube_get ext fetchParams of
        Inl e \<Rightarrow> Inl e
      | Inr data \<Rightarrow>
          (let page = reqPage req; pageSize = reqPageSize req;
               itemsRaw = (case yt_items data of Some xs \<Rightarrow> xs | None \<Rightarrow> []);
               mapped = mapYouTube itemsRaw;
               hasNext = truthy (nextPageToken data);
               totalPages = (if hasNext then js_add page (num 1) else page);
               total = js_add (js_add (js_mul (js_sub page (num 1)) pageSize) (len mapped))
                         (if hasNext then num 1 else num 0);
               filtered = typeFilter (reqType req) mapped
           in Inr \<lparr> items = filtered, total = total, page = page,
                    pageSize = pageSize, totalPages = totalPages \<rparr>))"

definition youtube :: "Env \<Rightarrow> externals \<Rightarrow> Query \<Rightarrow> (error + PaginatedResult) option" where
  "youtube env ext req =
     (case YOUTUBE_API_KEY env of
        None \<Rightarrow> Some (Inl (Error ''YOUTUBE_API_KEY is not set''))
      | Some youtubeKey \<Rightarrow>
          if youtubeKey = [] then Some (Inl (Error ''YOUTUBE_API_KEY is not set''))
          else
            let fetchParams = youtubeBaseParams youtubeKey req in
            if js_lt (num 1) (reqPage req) then
              (case walkTokens (youtube_get ext) fetchParams (reqPage req) 1 None of
                 None \<Rightarrow> None
               | Some (Inl e) \<Rightarrow> Some (Inl e)
               | Some (Inr _) \<Rightarrow>
                   (case walkTokens (youtube_get ext) fetchParams (reqPage req) 1 None of
                      None \<Rightarrow> None
                    | Some (Inl e) \<Rightarrow> Some (Inl e)
                    | Some (Inr currentToken) \<Rightarrow>
                        Some (youtubeFetch ext req
                                (if truthy currentToken
                                 then fetchParams @ [(''pageToken'', S (the currentToken))]
                                 else fetchParams))))
            else Some (youtubeFetch ext req fetchParams))"

subsection \<open>The article feed, or the provider named by the environment\<close>

definition js_join :: "string list \<Rightarrow> string" where
  "js_join ts = (case ts of [] \<Rightarrow> [] | t # rest \<Rightarrow> foldl (\<lambda>acc x. acc @ '','' @ x) t rest)"

definition feedBaseUrl :: "Env \<Rightarrow> Query \<Rightarrow> string" where
  "feedBaseUrl env req =
     (case RESOURCE_API_URL env of
        Some providerUrl \<Rightarrow>
          if providerUrl \<noteq> [] then providerUrl
          else if reqQuery req \<noteq> [] then ''https://dev.to/api/search/articles''
          else ''https://dev.to/api/articles''
      | None \<Rightarrow>
          if reqQuery req \<noteq> [] then ''https://dev.to/api/search/articles''
          else ''https://dev.to/api/articles'')"

definition feedParams :: "Env \<Rightarrow> Query \<Rightarrow> params" where
  "feedParams env req =
     (let query = reqQuery req; tags = reqTags req;
          page = reqPage req; pageSize = reqPageSize req
      in if \<not> truthy (RESOURCE_API_URL env) then
           (if query \<noteq> [] then [(''page'', N page), (''per_page'', N pageSize), (''q'', S query)]
            else if 0 < length tags
                 then [(''page'', N page), (''per_page'', N pageSize), (''tag'', S (hd tags))]
                 else [(''page'', N page), (''per_page'', N pageSize)])
         else [(''query'', S query), (''type'', S (reqType req)),
               (''language'', S (reqLanguage req)), (''framework'', S (reqFramework req)),
               (''difficulty'', S (reqDifficulty req)), (''tags'', S (js_join tags)),
               (''page'', N page), (''pageSize'', N pageSize)])"

definition feedHeaders :: "Env \<Rightarrow> Query \<Rightarrow> headers" where
  "feedHeaders env req =
     (let apiKey = or_else (RESOURCE_API_KEY env) (or_else (API_KEY env)
                     (or_else (OPENAI_API_KEY env) (GENAI_API_KEY env)));
          headers = [(''Content-Type'', ''application/json'')]
      in case apiKey of
           Some k \<Rightarrow>
             if k \<noteq> [] then
               (if js_includes (feedBaseUrl env req) ''dev.to''
                then headers @ [(''api-key'', k)]
                else headers @ [(''Authorization'', ''Bearer '' @ k)])
             else headers
         | None \<Rightarrow> headers)"

text \<open>\<open>{ ...params, page: page + 1 }\<close>: the entry \<open>page\<close> is replaced where it stands.\<close>

definition setPage :: "params \<Rightarrow> jsnum \<Rightarrow> params" where
  "setPage ps p = map (\<lambda>kv. if fst kv = ''page'' then (''page'', N p) else kv) ps"

definition feedItems :: "DevtoData \<Rightarrow> Article list" where
  "feedItems data =
     (case data of
        DataArray xs \<Rightarrow> xs
      | DataObject its res ress \<Rightarrow> (case its of Some xs \<Rightarrow> xs | None \<Rightarrow> []))"

text \<open>The probe of the next page. Any failure inside it is caught and leaves
  \<open>hasNext\<close> at \<open>false\<close>.\<close>

definition feedProbe :: "Env \<Rightarrow> externals \<Rightarrow> Query \<Rightarrow> bool" where
  "feedProbe env ext req =
     (let nextParams = setPage (feedParams env req) (js_add (reqPage req) (num 1))
      in case devto_get ext (feedBaseUrl env req) nextParams (feedHeaders env req) of
           Inl e \<Rightarrow> False
         | Inr nextData \<Rightarrow>
             (let nextRaw = feedItems nextData;
                  nextMapped = map mapDevToArticleToResource nextRaw;
                  nextMapped = typeFilter (reqType req) nextMapped
              in 0 < length nextMapped))"

definition feed :: "Env \<Rightarrow> externals \<Rightarrow> Query \<Rightarrow> error + PaginatedResult" where
  "feed env ext req =
     (case devto_get ext (feedBaseUrl env req) (feedParams env req) (feedHeaders env req) of
        Inl e \<Rightarrow> Inl e
      | Inr data \<Rightarrow>
          (let page = reqPage req; pageSize = reqPageSize req;
               itemsRaw = feedItems data;
               mapped = map mapDevToArticleToResource itemsRaw;
               mapped = typeFilter (reqType req) mapped;
               hasNext = feedProbe env ext req;
               totalPages = (if hasNext then js_add page (num 1) else page);
               total = js_add (js_add (js_mul (js_sub page (num 1)) pageSize) (len mapped))
                         (if hasNext then num 1 else num 0)
           in Inr \<lparr> items = mapped, total = total, page = page,
                    pageSize = pageSize, totalPages = totalPages \<rparr>))"

subsection \<open>The handler\<close>

text \<open>
  The provider is tried first; whatever it throws is caught and answered from the local
  data. Both answers are sent with \<open>res.json\<close>, that is with status 200. The outer
  handler, which would answer 500, is reached by nothing in this model: neither the
  reading of the query string nor \<open>filterAndPaginate\<close> on the local data throws.
\<close>

definition fallbackOptions :: "Query \<Rightarrow> Options" where
  "fallbackOptions req =
     \<lparr> o_query = Some (reqQuery req), o_type = Some (reqType req),
       o_language = Some (reqLanguage req), o_framework = Some (reqFramework req),
       o_difficulty = Some (reqDifficulty req), o_tags = Some (reqTags req),
       o_page = Some (reqPage req), o_pageSize = Some (reqPageSize req) \<rparr>"

definition isMixed :: "Query \<Rightarrow> bool" where
  "isMixed req =
     ((reqProvider req = [] \<or> reqProvider req = ''mixed'') \<and>
      (reqType req = ''all'' \<or> reqType req = []))"

definition tryProvider :: "Env \<Rightarrow> externals \<Rightarrow> Query \<Rightarrow> (error + PaginatedResult) option" where
  "tryProvider env ext req =
     (if isMixed req then Some (Inr (mixedFeed env ext req))
      else if reqProvider req = ''googlebooks'' then Some (googlebooks env ext req)
      else if reqProvider req = ''freebooks'' then Some (freebooks env ext req)
      else if reqProvider req = ''openlibrary'' then Some (openlibrary ext req)
      else if reqProvider req = ''youtube'' then youtube env ext req
      else Some (feed env ext req))"

definition resources :: "Env \<Rightarrow> externals \<Rightarrow> Query \<Rightarrow> Response option" where
  "resources env ext req =
     (case tryProvider env ext req of
        None \<Rightarrow> None
      | Some (Inr result) \<Rightarrow> Some (Json 200 result)
      | Some (Inl providerErr) \<Rightarrow>
          Some (Json 200 (filterAndPaginate fallbackData (fallbackOptions req))))"

section \<open>The handler of POST /api/chat\<close>

text \<open>
  The request body, as the handler reads it: \<open>messages\<close> is absent, something that is not
  an array, or an array of messages; \<open>model\<close> is kept when it is a string. The completion
  service is a function of the API version, the model and the prepared conversation; of
  its answer the handler reads the text of the first part of the first candidate.
\<close>

record Message =
  role :: "string option"
  content :: "string option"

datatype MessagesField = MsgAbsent | MsgNotArray | MsgArray "Message list"

record ChatBody =
  messages :: MessagesField
  model :: "string option"

type_synonym prepared = "(string \<times> string) list"

type_synonym gemini = "string \<Rightarrow> string \<Rightarrow> string \<Rightarrow> prepared \<Rightarrow> error + string option"

text \<open>An answer of the chat handler: \<open>res.json({ content, model })\<close> with status 200, or
  \<open>res.status(n).json({ error, ... })\<close>. The field \<open>details\<close> of an error body is left
  out.\<close>

datatype ChatResponse = ChatReply string string | ChatError nat string

definition statusOf :: "error \<Rightarrow> nat option" where
  "statusOf e = (case e of AxiosError st \<Rightarrow> st | Error _ \<Rightarrow> None)"

definition normalizeModel :: "string \<Rightarrow> string" where
  "normalizeModel requestedModelRaw =
     (case map_of [(''gemini-1.5-flash-latest'', ''gemini-1.5-flash''),
                   (''gemini-1.5-pro-latest'', ''gemini-1.5-pro''),
                   (''flash'', ''gemini-1.5-flash''),
                   (''pro'', ''gemini-1.5-pro''),
                   (''latest'', ''gemini-1.5-flash'')] requestedModelRaw of
        Some m \<Rightarrow> m
      | None \<Rightarrow> requestedModelRaw)"

text \<open>\<open>Array.from(new Set(xs))\<close>: the first occurrence of each element, in order.\<close>

fun fromSet :: "string list \<Rightarrow> string list" where
  "fromSet [] = []"
| "fromSet (x # xs) = x # fromSet (filter (\<lambda>y. y \<noteq> x) xs)"

definition candidateModels :: "string option \<Rightarrow> string list" where
  "candidateModels model' =
     (let requestedModelRaw = toLowerCase (or_str model' ''gemini-1.5-flash'');
          requestedModel = normalizeModel requestedModelRaw
      in fromSet [requestedModel, ''gemini-1.5-flash'', ''gemini-1.5-flash-8b'',
                  ''gemini-1.5-pro''])"

definition prepare :: "Message list \<Rightarrow> prepared" where
  "prepare msgs =
     (let systemMsg = find (\<lambda>m. role m = Some ''system'') msgs;
          nonSystem = filter (\<lambda>m. role m \<noteq> Some ''system'') msgs;
          prepared = map (\<lambda>m. (if role m = Some ''assistant'' then ''model'' else ''user'',
                                or_str (content m) [])) nonSystem
      in case systemMsg of
           None \<Rightarrow> prepared
         | Some sm \<Rightarrow>
             (case content sm of
                None \<Rightarrow> prepared
              | Some c \<Rightarrow>
                  if c = [] then prepared
                  else (case prepared of
                          (r, t) # rest \<Rightarrow>
                            if r = ''user'' then (r, c @ [CHR 0x0A, CHR 0x0A] @ t) # rest
                            else (''user'', c) # prepared
                        | [] \<Rightarrow> [(''user'', c)])))"

text \<open>The loop over the candidate models. \<open>Inl\<close> is an answer sent from inside the loop,
  \<open>Inr\<close> the last error when the loop is left.\<close>

fun tryModels ::
  "gemini \<Rightarrow> string \<Rightarrow> prepared \<Rightarrow> string list \<Rightarrow> error option \<Rightarrow> ChatResponse + error option" where
  "tryModels post key prepared [] lastErr = Inr lastErr"
| "tryModels post key prepared (m # ms) lastErr =
     (case post ''v1beta'' m key prepared of
        Inr text' \<Rightarrow> Inl (ChatReply (or_str text' []) m)
      | Inl e \<Rightarrow>
          if statusOf e = Some 404 \<or> statusOf e = Some 403 then
            (case post ''v1'' m key prepared of
               Inr text' \<Rightarrow> Inl (ChatReply (or_str text' []) m)
             | Inl e2 \<Rightarrow>
                 if statusOf e2 = Some 404 \<or> statusOf e2 = Some 403
                 then tryModels post key prepared ms (Some e2)
                 else Inr (Some e2))
          else Inr (Some e))"

definition mockReply :: "Message list \<Rightarrow> string" where
  "mockReply msgs =
     (let lastUser = find (\<lambda>m. role m = Some ''user'') (rev msgs);
          prompt = (case lastUser of Some m \<Rightarrow> or_str (content m) ''your topic''
                    | None \<Rightarrow> ''your topic'')
      in ''Mock reply: I cannot reach the LLM service right now, but here are thoughts about ''
         @ [CHR 0x22] @ prompt @ [CHR 0x22] @ ''.'')"

definition chat :: "Env \<Rightarrow> gemini \<Rightarrow> ChatBody option \<Rightarrow> ChatResponse" where
  "chat env post body =
     (let GEMINI_API_KEY = or_else (GEMINI_API_KEY env) (GOOGLE_API_KEY env)
      in if \<not> truthy GEMINI_API_KEY
         then ChatError 500 ''GEMINI_API_KEY is not set on the server''
         else
           (case (case body of Some b \<Rightarrow> messages b | None \<Rightarrow> MsgAbsent) of
              MsgArray (m0 # msgs) \<Rightarrow>
                (case tryModels post (the GEMINI_API_KEY) (prepare (m0 # msgs))
                        (candidateModels (case body of Some b \<Rightarrow> model b | None \<Rightarrow> None))
                        None of
                   Inl response \<Rightarrow> response
                 | Inr lastErr \<Rightarrow>
                     if toLowerCase (String_of (CHATBOT_MOCK_ON_FAILURE env)) = ''true''
                     then ChatReply (mockReply (m0 # msgs)) ''mock''
                     else
                       (let status = (case lastErr of
                                        Some e \<Rightarrow>
                                          (case statusOf e of
                                             Some st \<Rightarrow> if st \<noteq> 0 then st else 500
                                           | None \<Rightarrow> 500)
                                      | None \<Rightarrow> 500)
                        in ChatError status ''Failed to get chat response''))
            | _ \<Rightarrow> ChatError 400 ''Request body must include non-empty messages array''))"

section \<open>Concrete environments, requests and catalogues\<close>

text \<open>The values below are the inputs at which the theorems are instantiated: an
  environment without any variable, a request without any parameter, and a world in which
  every outgoing request fails.\<close>

definition emptyEnv :: Env where
  "emptyEnv = \<lparr> RESOURCE_API_KEY = None, API_KEY = None, OPENAI_API_KEY = None,
      GENAI_API_KEY = None, RESOURCE_API_URL = None, YOUTUBE_API_KEY = None,
      GOOGLE_BOOKS_API_KEY = None, RAPIDAPI_KEY = None, GEMINI_API_KEY = None,
      GOOGLE_API_KEY = None, CHATBOT_MOCK_ON_FAILURE = None \<rparr>"

definition emptyQuery :: Query where
  "emptyQuery = \<lparr> q_provider = None, q_query = None, q_type = None, q_language = None,
      q_framework = None, q_difficulty = None, q_tags = TagsAbsent, q_page = None,
      q_pageSize = None \<rparr>"

text \<open>Decimal digits of a natural number; the concrete worlds render the integers they
  meet with it.\<close>

fun showNat :: "nat \<Rightarrow> string" where
  "showNat n =
     (if n < 10 then [''0123456789'' ! n]
      else showNat (n div 10) @ [''0123456789'' ! (n mod 10)])"

declare showNat.simps [simp del]

definition showNumber :: "jsnum \<Rightarrow> string" where
  "showNumber n =
     (case n of
        Fin r \<Rightarrow> (if r < 0 then ''-'' @ showNat (nat (- js_trunc r)) else showNat (nat (js_trunc r)))
      | PosInf \<Rightarrow> ''Infinity''
      | NegInf \<Rightarrow> ''-Infinity''
      | NaN \<Rightarrow> ''NaN'')"

definition downExt :: externals where
  "downExt = \<lparr> devto_get = (\<lambda>u ps hs. Inl (AxiosError None)),
      youtube_get = (\<lambda>ps. Inl (AxiosError None)),
      books_get = (\<lambda>ps. Inl (AxiosError None)),
      freebooks_get = (\<lambda>g n hs. Inl (AxiosError None)),
      openlibrary_get = (\<lambda>ps. Inl (AxiosError None)),
      numberToString = showNumber \<rparr>"

text \<open>A world is down when each of its five catalogues fails on every request.\<close>

definition allDown :: "externals \<Rightarrow> bool" where
  "allDown ext =
     ((\<forall>u ps hs. isl (devto_get ext u ps hs)) \<and>
      (\<forall>ps. isl (youtube_get ext ps)) \<and>
      (\<forall>ps. isl (books_get ext ps)) \<and>
      (\<forall>g n hs. isl (freebooks_get ext g n hs)) \<and>
      (\<forall>ps. isl (openlibrary_get ext ps)))"


text \<open>A world in which the article feed and the video search both know the address of
  the video \<open>v1\<close>; the book search is down. The environment holds a video key.\<close>

definition youtubeEnv :: Env where
  "youtubeEnv = emptyEnv\<lparr> YOUTUBE_API_KEY := Some ''key'' \<rparr>"

definition dupArticles :: "Article list" where
  "dupArticles =
     [ \<lparr> a_id = ''1'', a_title = Some ''A talk'', a_description = None, a_body_text = None,
         a_canonical_url = Some ''https://www.youtube.com/watch?v=v1'', a_url = None,
         a_path = None, a_tag_list = Some [''talks''], a_tags = None, a_user_name = None,
         a_user_username = None \<rparr>,
       \<lparr> a_id = ''2'', a_title = Some ''A post'', a_description = None, a_body_text = None,
         a_canonical_url = None, a_url = Some ''https://dev.to/x'',
         a_path = None, a_tag_list = None, a_tags = Some ''a, b'', a_user_name = None,
         a_user_username = None \<rparr> ]"

definition dupVideos :: "YtItem list" where
  "dupVideos =
     [ \<lparr> videoId = Some ''v1'',
         snippet = Some \<lparr> s_title = Some ''One'', s_description = None, channelTitle = None \<rparr> \<rparr>,
       \<lparr> videoId = Some ''v2'',
         snippet = Some \<lparr> s_title = Some ''Two'', s_description = None, channelTitle = None \<rparr> \<rparr> ]"

definition dupExt :: externals where
  "dupExt = downExt\<lparr> devto_get := (\<lambda>u ps hs. Inr (DataArray dupArticles)),
      youtube_get := (\<lambda>ps. Inr \<lparr> yt_items = Some dupVideos, nextPageToken = None \<rparr>) \<rparr>"



text \<open>A body has no messages when it is missing, or when its \<open>messages\<close> field is
  absent, not an array, or an empty array. Below it: such a body, an environment with a
  completion key, and a completion service that is down.\<close>

definition noMessages :: "ChatBody option \<Rightarrow> bool" where
  "noMessages body =
     (case body of
        None \<Rightarrow> True
      | Some b \<Rightarrow> (case messages b of MsgArray ms \<Rightarrow> ms = [] | _ \<Rightarrow> True))"

definition downGemini :: gemini where
  "downGemini = (\<lambda>version m key prepared. Inl (AxiosError None))"

definition emptyChat :: "ChatBody option" where
  "emptyChat = Some \<lparr> messages = MsgArray [], model = None \<rparr>"

definition geminiEnv :: Env where
  "geminiEnv = emptyEnv\<lparr> GEMINI_API_KEY := Some ''key'' \<rparr>"

text \<open>Requests for the book search and the library search; worlds in which these
  answer with a count of 95 and no items.\<close>

definition booksReq :: Query where
  "booksReq = emptyQuery\<lparr> q_provider := Some ''googlebooks'' \<rparr>"

definition bigBooksReq :: Query where
  "bigBooksReq = emptyQuery\<lparr> q_provider := Some ''googlebooks'', q_pageSize := Some (num 100) \<rparr>"

definition bigBooksExt :: externals where
  "bigBooksExt = downExt\<lparr> books_get := (\<lambda>ps. Inr \<lparr> totalItems = Some (num 95), gb_items = Some [] \<rparr>) \<rparr>"

definition bigLibraryReq :: Query where
  "bigLibraryReq = emptyQuery\<lparr> q_provider := Some ''openlibrary'', q_pageSize := Some (num 100) \<rparr>"

definition bigLibraryExt :: externals where
  "bigLibraryExt = downExt\<lparr> openlibrary_get := (\<lambda>ps. Inr \<lparr> docs = Some [], numFound = Some (num 95) \<rparr>) \<rparr>"

text \<open>An article whose address is classified as \<open>article\<close>; a feed that returns it
  for every page, and one that returns it for page 1 and fails otherwise.\<close>

definition articleA :: Article where
  "articleA = \<lparr> a_id = ''7'', a_title = Some ''A post'', a_description = None,
      a_body_text = None, a_canonical_url = None, a_url = Some ''https://dev.to/a'',
      a_path = None, a_tag_list = None, a_tags = None, a_user_name = None,
      a_user_username = None \<rparr>"

definition feedExt :: externals where
  "feedExt = downExt\<lparr> devto_get := (\<lambda>u ps hs. Inr (DataArray [articleA])) \<rparr>"

definition lastPageExt :: externals where
  "lastPageExt = downExt\<lparr> devto_get :=
      (\<lambda>u ps hs. if map_of ps ''page'' = Some (N (num 1)) then Inr (DataArray [articleA])
                  else Inl (AxiosError None)) \<rparr>"

definition videoReq :: Query where
  "videoReq = emptyQuery\<lparr> q_type := Some ''video'' \<rparr>"

definition articleReq :: Query where
  "articleReq = emptyQuery\<lparr> q_type := Some ''article'' \<rparr>"

text \<open>A request for the video search with a page size of zero.\<close>

definition zeroSizeReq :: Query where
  "zeroSizeReq = emptyQuery\<lparr> q_provider := Some ''youtube'', q_pageSize := Some (num 0) \<rparr>"

text \<open>The same request with a page size that is not a number.\<close>

definition nanSizeReq :: Query where
  "nanSizeReq = emptyQuery\<lparr> q_provider := Some ''youtube'', q_pageSize := Some NaN \<rparr>"

text \<open>A video search whose every answer is the same single page, without a
  continuation token; requests for its first and its third page.\<close>

definition onePageExt :: externals where
  "onePageExt = downExt\<lparr> youtube_get :=
      (\<lambda>ps. Inr \<lparr> yt_items = Some [\<lparr> videoId = Some ''v1'',
                                       snippet = Some \<lparr> s_title = Some ''One'', s_description = None,
                                                        channelTitle = None \<rparr> \<rparr>],
                    nextPageToken = None \<rparr>) \<rparr>"

definition page3Req :: Query where
  "page3Req = emptyQuery\<lparr> q_provider := Some ''youtube'', q_page := Some (num 3) \<rparr>"

definition page1Req :: Query where
  "page1Req = emptyQuery\<lparr> q_provider := Some ''youtube'' \<rparr>"

text \<open>A free-book listing that returns two books per page, and a request for pages of
  one.\<close>

definition noBook :: Book where
  "noBook = \<lparr> b_id = None, b_isbn = None, b_title = None, b_name = None, b_bookTitle = None,
      b_description = None, b_desc = None, b_summary = None, b_url = None, b_link = None,
      b_bookLink = None, b_download = None, b_source = None, b_author = None, b_writer = None,
      b_creator = None, b_genre = None, b_category = None \<rparr>"

definition fbEnv :: Env where
  "fbEnv = emptyEnv\<lparr> RAPIDAPI_KEY := Some ''key'' \<rparr>"

definition fbExt :: externals where
  "fbExt = downExt\<lparr> freebooks_get :=
      (\<lambda>genre pageNum hs.
         Inr (FbArray [noBook\<lparr> b_title := Some ''First'', b_url := Some ''https://example.org/1'' \<rparr>,
                       noBook\<lparr> b_title := Some ''Second'', b_url := Some ''https://example.org/2'' \<rparr>])) \<rparr>"

definition fbReq :: Query where
  "fbReq = emptyQuery\<lparr> q_provider := Some ''freebooks'', q_pageSize := Some (num 1) \<rparr>"

section \<open>Properties\<close>

subsection \<open>Numbers and slices\<close>

lemma js_le_Fin: "js_le (Fin a) (Fin b) = (a \<le> b)"
  by (auto simp: js_le_def)

lemma relativeIndex_zero: "relativeIndex n (Fin 0) = 0"
  by (simp add: js_trunc_def)

lemma js_slice_from_zero: "js_slice xs (Fin 0) s = take (relativeIndex (length xs) s) xs"
  by (simp add: js_slice_def relativeIndex_zero del: relativeIndex.simps)

lemma relativeIndex_le: "0 \<le> k \<Longrightarrow> of_nat (relativeIndex n (Fin k)) \<le> k"
proof -
  assume k: "0 \<le> k"
  then have "relativeIndex n (Fin k) \<le> nat \<lfloor>k\<rfloor>"
    by (simp add: js_trunc_def Let_def)
  then have "(of_nat (relativeIndex n (Fin k)) :: rat) \<le> of_nat (nat \<lfloor>k\<rfloor>)"
    by (simp only: of_nat_le_iff)
  also have "\<dots> = of_int \<lfloor>k\<rfloor>" using k by simp
  also have "\<dots> \<le> k" by (rule of_int_floor_le)
  finally show ?thesis .
qed

lemma js_slice_bound:
  assumes "js_le (Fin 0) s"
  shows "js_le (len (js_slice xs (Fin 0) s)) s"
proof (cases s)
  case (Fin k)
  with assms have k: "0 \<le> k" by (auto simp: js_le_def)
  have "(of_nat (length (take (relativeIndex (length xs) (Fin k)) xs)) :: rat)
          \<le> of_nat (relativeIndex (length xs) (Fin k))"
    by simp
  also have "\<dots> \<le> k" using k by (rule relativeIndex_le)
  finally have "(of_nat (length (js_slice xs (Fin 0) (Fin k))) :: rat) \<le> k"
    by (simp only: js_slice_from_zero)
  then show ?thesis using Fin by (simp only: js_le_Fin)
next
  case PosInf
  then show ?thesis by (simp add: js_le_def)
next
  case NegInf
  with assms show ?thesis by (simp add: js_le_def)
next
  case NaN
  with assms show ?thesis by (simp add: js_le_def)
qed

lemma js_slice_all:
  assumes "js_le (len xs) s"
  shows "js_slice xs (Fin 0) s = xs"
proof (cases s)
  case (Fin k)
  with assms have le: "of_nat (length xs) \<le> k" by (simp only: js_le_Fin)
  then have "int (length xs) \<le> \<lfloor>k\<rfloor>" by (simp add: le_floor_iff)
  moreover have "(0::rat) \<le> of_nat (length xs)" by simp
  with le have "0 \<le> k" by linarith
  ultimately have "relativeIndex (length xs) (Fin k) = length xs"
    by (auto simp: js_trunc_def Let_def)
  then show ?thesis using Fin by (simp add: js_slice_from_zero del: relativeIndex.simps)
next
  case PosInf
  then show ?thesis by (simp add: js_slice_from_zero)
next
  case NegInf
  with assms show ?thesis by (simp add: js_le_def)
next
  case NaN
  with assms show ?thesis by (simp add: js_le_def)
qed

subsection \<open>The handler answers\<close>

text \<open>The token walk ends for every page number but \<open>Infinity\<close>; with it, the handler
  answers every such request, and always with status 200.\<close>

lemma walkTokens_finite:
  "\<exists>w. walkTokens get ps (Fin r) i tok = Some w"
proof (induction "nat (\<lceil>r\<rceil> - int i)" arbitrary: i tok)
  case 0
  then have "\<lceil>r\<rceil> \<le> int i" by simp
  then have "r \<le> of_int (int i)" by (simp only: ceiling_le_iff)
  then have "\<not> js_lt (Fin (of_nat i)) (Fin r)" by simp
  then show ?case by (subst walkTokens.simps) simp
next
  case (Suc n)
  then have n: "n = nat (\<lceil>r\<rceil> - int (Suc i))" by simp
  show ?case
  proof (cases "get (withToken ps tok)")
    case (Inl e)
    then show ?thesis by (subst walkTokens.simps) simp
  next
    case (Inr d)
    from Suc.hyps(1) [OF n, of "nextPageToken d"] obtain w
      where "walkTokens get ps (Fin r) (Suc i) (nextPageToken d) = Some w" by blast
    with Inr show ?thesis by (subst walkTokens.simps) simp
  qed
qed

lemma walkTokens_returns:
  assumes "p \<noteq> PosInf"
  shows "\<exists>w. walkTokens get ps p i tok = Some w"
proof (cases p)
  case (Fin r)
  then show ?thesis by (simp add: walkTokens_finite)
next
  case PosInf
  with assms show ?thesis by simp
next
  case NegInf
  then show ?thesis by (subst walkTokens.simps) simp
next
  case NaN
  then show ?thesis by (subst walkTokens.simps) simp
qed

lemma youtube_returns:
  assumes "reqPage req \<noteq> PosInf"
  shows "\<exists>w. youtube env ext req = Some w"
proof (cases "YOUTUBE_API_KEY env")
  case None
  then show ?thesis by (simp add: youtube_def)
next
  case (Some k)
  from assms obtain w
    where w: "walkTokens (youtube_get ext) (youtubeBaseParams k req) (reqPage req) 1 None = Some w"
    using walkTokens_returns by blast
  show ?thesis
    using Some w by (cases w) (simp_all add: youtube_def Let_def)
qed

lemma resources_returns:
  assumes "reqPage req \<noteq> PosInf"
  shows "\<exists>r. resources env ext req = Some (Json 200 r)"
proof -
  from youtube_returns [OF assms] obtain w where "youtube env ext req = Some w" by blast
  then have "\<exists>w. tryProvider env ext req = Some w"
    by (simp add: tryProvider_def)
  then show ?thesis
    by (auto simp: resources_def split: sum.splits)
qed


subsection \<open>The filter stage\<close>

lemma stage:
  "(case v of Some q \<Rightarrow> if c q then filter (P q) xs else xs | None \<Rightarrow> xs) =
   filter (\<lambda>r. case v of Some q \<Rightarrow> c q \<longrightarrow> P q r | None \<Rightarrow> True) xs"
  by (cases v) simp_all

lemma applyFilters_filter: "applyFilters data opts = filter (keeps opts) data"
  unfolding applyFilters_def Let_def stage keeps_def
  by (simp add: conj_ac cong: filter_cong)

text \<open>
  Claim C8. The filter stage of \<open>filterAndPaginate\<close> is idempotent: filtering the output
  again with the same options changes nothing. The output is a subsequence of the input,
  so the relative order of the resources is kept. The stage is a function of its
  arguments: it returns a new list and has no access to the caller's one.
\<close>

theorem applyFilters_idempotent:
  "applyFilters (applyFilters data opts) opts = applyFilters data opts \<and>
   subseq (applyFilters data opts) data"
  by (simp add: applyFilters_filter)

subsection \<open>De-duplication in mixed mode\<close>

lemma dedupe_urls: "url ` set (dedupe seen xs) = url ` set xs - seen"
  by (induction xs arbitrary: seen) (auto simp: Let_def)

lemma dedupe_distinct: "distinct (map url (dedupe seen xs))"
proof (induction xs arbitrary: seen)
  case Nil
  then show ?case by simp
next
  case (Cons r xs)
  have "url r \<notin> url ` set (dedupe (insert (url r) seen) xs)"
    by (simp add: dedupe_urls)
  with Cons show ?case by (simp add: Let_def)
qed

lemma dedupe_subseq: "subseq (dedupe seen xs) xs"
  by (induction xs arbitrary: seen) (auto simp: Let_def)

lemma dedupe_fresh: "x \<in> set (dedupe seen xs) \<Longrightarrow> url x \<notin> seen"
  using dedupe_urls [of seen xs] by blast

lemma dedupe_first:
  "x \<in> set (dedupe seen xs) \<Longrightarrow> find (\<lambda>y. url y = url x) xs = Some x"
proof (induction xs arbitrary: seen)
  case Nil
  then show ?case by simp
next
  case (Cons r xs)
  show ?case
  proof (cases "url r = url x")
    case True
    from Cons.prems have fresh: "url x \<notin> seen" by (rule dedupe_fresh)
    with True Cons.prems have "x = r \<or> x \<in> set (dedupe (insert (url r) seen) xs)"
      by (simp add: Let_def)
    moreover have "url x \<in> insert (url r) seen"
      using True by simp
    then have "x \<notin> set (dedupe (insert (url r) seen) xs)"
      using dedupe_fresh by blast
    ultimately have "x = r" by blast
    then show ?thesis by simp
  next
    case False
    with Cons.prems have "x \<in> set (dedupe (insert (url r) seen) xs) \<or> x \<in> set (dedupe seen xs)"
      by (auto simp: Let_def split: if_splits)
    then have "find (\<lambda>y. url y = url x) xs = Some x"
      using Cons.IH by blast
    with False show ?thesis by simp
  qed
qed

lemma resources_mixed:
  "isMixed req \<Longrightarrow> resources env ext req = Some (Json 200 (mixedFeed env ext req))"
  by (simp add: resources_def tryProvider_def)

lemma mixedResults_order:
  "concat (mixedResults env ext req) =
     mixedDevTo env ext req @
     (case YOUTUBE_API_KEY env of
        Some k \<Rightarrow> if k \<noteq> [] then mixedYouTube k ext req else []
      | None \<Rightarrow> []) @
     mixedBooks env ext req"
  by (simp add: mixedResults_def split: option.splits)

text \<open>
  Claim C3. In mixed mode the answer is sent with status 200 and, whatever the adapters
  returned: no two items share an address; each item is the first resource with its
  address in the concatenation of the adapter results, which lists the article feed
  first, then the video search (when a key is set), then the book search; the items keep
  the order of that concatenation; with a page size that is not negative there are at
  most \<open>pageSize\<close> items; when the page size leaves room for all of them, every address
  of the concatenation is among the items; and \<open>totalPages\<close> is 1.
\<close>

theorem mixed_mode_dedupe:
  assumes "isMixed req"
  shows "\<exists>r. resources env ext req = Some (Json 200 r) \<and>
           distinct (map url (items r)) \<and>
           (\<forall>x \<in> set (items r).
              find (\<lambda>y. url y = url x) (concat (mixedResults env ext req)) = Some x) \<and>
           subseq (items r) (concat (mixedResults env ext req)) \<and>
           concat (mixedResults env ext req) =
             mixedDevTo env ext req @
             (case YOUTUBE_API_KEY env of
                Some k \<Rightarrow> if k \<noteq> [] then mixedYouTube k ext req else []
              | None \<Rightarrow> []) @
             mixedBooks env ext req \<and>
           pageSize r = reqPageSize req \<and>
           (js_le (num 0) (pageSize r) \<longrightarrow> js_le (len (items r)) (pageSize r)) \<and>
           (js_le (len (dedupe {} (concat (mixedResults env ext req)))) (pageSize r) \<longrightarrow>
              url ` set (items r) = url ` set (concat (mixedResults env ext req))) \<and>
           totalPages r = num 1"
proof -
  let ?merged = "concat (mixedResults env ext req)"
  let ?unique = "dedupe {} ?merged"
  let ?r = "mixedFeed env ext req"
  have its: "items ?r = js_slice ?unique (Fin 0) (reqPageSize req)"
    by (simp add: mixedFeed_def Let_def)
  have tk: "items ?r = take (relativeIndex (length ?unique) (reqPageSize req)) ?unique"
    by (simp only: its js_slice_from_zero)
  have sub: "set (items ?r) \<subseteq> set ?unique"
    unfolding tk by (rule set_take_subset)
  have 1: "distinct (map url (items ?r))"
    unfolding tk take_map [symmetric] by (rule distinct_take) (rule dedupe_distinct)
  have 2: "\<forall>x \<in> set (items ?r). find (\<lambda>y. url y = url x) ?merged = Some x"
    using sub dedupe_first by blast
  have "subseq (items ?r) ?unique"
    unfolding tk by (metis append_take_drop_id prefix_def prefix_imp_subseq)
  then have 3: "subseq (items ?r) ?merged"
    using dedupe_subseq subseq_order.order_trans by blast
  have 4: "pageSize ?r = reqPageSize req" "totalPages ?r = num 1"
    by (simp_all add: mixedFeed_def Let_def)
  have 5: "js_le (num 0) (pageSize ?r) \<longrightarrow> js_le (len (items ?r)) (pageSize ?r)"
    using js_slice_bound [of "reqPageSize req" ?unique] by (simp add: its 4)
  have 6: "js_le (len ?unique) (pageSize ?r) \<longrightarrow> url ` set (items ?r) = url ` set ?merged"
    using js_slice_all [of ?unique "reqPageSize req"] by (simp add: its 4 dedupe_urls)
  show ?thesis
    using resources_mixed [OF assms, of env ext] 1 2 3 4 5 6 mixedResults_order [of env ext req]
    by blast
qed

text \<open>The article feed and the video search both return the address of \<open>v1\<close>: the
  article is kept, the video with the same address is dropped.\<close>

theorem mixed_mode_dedupe_witness:
  "isMixed emptyQuery \<and> js_le (num 0) (reqPageSize emptyQuery) \<and>
   (\<exists>r. resources youtubeEnv dupExt emptyQuery = Some (Json 200 r) \<and>
        map id_r (items r) = [''1'', ''2'', ''v2''] \<and>
        distinct (map url (items r)) \<and>
        js_le (len (items r)) (pageSize r) \<and>
        totalPages r = num 1)"
proof -
  have h: "isMixed emptyQuery" by code_simp
  have p0: "js_le (num 0) (reqPageSize emptyQuery)" by code_simp
  have ev: "(case resources youtubeEnv dupExt emptyQuery of
               Some (Json n r) \<Rightarrow> map id_r (items r) | _ \<Rightarrow> []) = [''1'', ''2'', ''v2'']"
    by code_simp
  from mixed_mode_dedupe [OF h, of youtubeEnv dupExt]
  obtain r where r: "resources youtubeEnv dupExt emptyQuery = Some (Json 200 r)"
    and d: "distinct (map url (items r))"
    and ps: "pageSize r = reqPageSize emptyQuery"
    and b: "js_le (num 0) (pageSize r) \<longrightarrow> js_le (len (items r)) (pageSize r)"
    and tp: "totalPages r = num 1"
    by blast
  from ev r have "map id_r (items r) = [''1'', ''2'', ''v2'']" by simp
  with h p0 r d ps b tp show ?thesis by auto
qed

subsection \<open>The per-source limit and the search term of mixed mode\<close>










subsection \<open>The page size of the book and library searches\<close>

lemma resources_googlebooks:
  "reqProvider req = ''googlebooks'' \<Longrightarrow>
   resources env ext req =
     (case googlebooks env ext req of
        Inr result \<Rightarrow> Some (Json 200 result)
      | Inl e \<Rightarrow> Some (Json 200 (filterAndPaginate fallbackData (fallbackOptions req))))"
  by (simp add: resources_def tryProvider_def isMixed_def split: sum.splits)

lemma resources_openlibrary:
  "reqProvider req = ''openlibrary'' \<Longrightarrow>
   resources env ext req =
     (case openlibrary ext req of
        Inr result \<Rightarrow> Some (Json 200 result)
      | Inl e \<Rightarrow> Some (Json 200 (filterAndPaginate fallbackData (fallbackOptions req))))"
  by (simp add: resources_def tryProvider_def isMixed_def split: sum.splits)

text \<open>
  Claim C10. When the request names the book search and that search answers, the handler
  answers with status 200 and the \<open>pageSize\<close> of the result is
  \<open>max(1, min(40, pageSize))\<close> of the requested page size, and \<open>totalPages\<close> is
  \<open>max(1, ceil(total / pageSize))\<close> with that capped page size. When the request names
  the library search and that search answers, the \<open>pageSize\<close> of the result is
  \<open>max(1, min(50, pageSize))\<close>. For finite page sizes the caps are the ones of the
  rationals.
\<close>

theorem capped_page_size:
  "(reqProvider req = ''googlebooks'' \<and> books_get ext (googlebooksParams env req) = Inr data \<longrightarrow>
      (\<exists>r. resources env ext req = Some (Json 200 r) \<and>
           pageSize r = js_max (num 1) (js_min (num 40) (reqPageSize req)) \<and>
           totalPages r = js_max (num 1) (js_ceil (js_div (total r) (pageSize r))) \<and>
           (\<forall>k. reqPageSize req = Fin k \<longrightarrow> pageSize r = Fin (max 1 (min 40 k))) \<and>
           (\<forall>k t. reqPageSize req = Fin k \<and> total r = Fin t \<longrightarrow>
              totalPages r = Fin (of_int (max 1 \<lceil>t / max 1 (min 40 k)\<rceil>))))) \<and>
   (reqProvider req = ''openlibrary'' \<and> openlibrary_get ext (openlibraryParams req) = Inr odata \<longrightarrow>
      (\<exists>r. resources env ext req = Some (Json 200 r) \<and>
           pageSize r = js_max (num 1) (js_min (num 50) (reqPageSize req)) \<and>
           (\<forall>k. reqPageSize req = Fin k \<longrightarrow> pageSize r = Fin (max 1 (min 50 k)))))"
proof (intro conjI impI)
  assume a: "reqProvider req = ''googlebooks'' \<and> books_get ext (googlebooksParams env req) = Inr data"
  define T where "T = (case totalItems data of Some n \<Rightarrow> js_or n (num 0) | None \<Rightarrow> num 0)"
  define M where "M = js_max (num 1) (js_min (num 40) (reqPageSize req))"
  define r where "r = \<lparr> items = typeFilter (reqType req)
                         (map mapGoogleBook (case gb_items data of Some xs \<Rightarrow> xs | None \<Rightarrow> [])),
                       total = T, page = reqPage req, pageSize = M,
                       totalPages = js_max (num 1) (js_ceil (js_div T M)) \<rparr>"
  have g: "googlebooks env ext req = Inr r"
    using a by (simp add: googlebooks_def googlebooksMaxResults_def Let_def r_def T_def M_def)
  have res: "resources env ext req = Some (Json 200 r)"
    using a g by (simp add: resources_googlebooks)
  have 1: "pageSize r = js_max (num 1) (js_min (num 40) (reqPageSize req))"
    by (simp add: r_def M_def)
  have 2: "totalPages r = js_max (num 1) (js_ceil (js_div (total r) (pageSize r)))"
    by (simp add: r_def)
  have 3: "\<forall>k. reqPageSize req = Fin k \<longrightarrow> pageSize r = Fin (max 1 (min 40 k))"
    by (simp add: r_def M_def)
  have 4: "\<forall>k t. reqPageSize req = Fin k \<and> total r = Fin t \<longrightarrow>
              totalPages r = Fin (of_int (max 1 \<lceil>t / max 1 (min 40 k)\<rceil>))"
  proof (intro allI impI, elim conjE)
    fix k t assume kt: "reqPageSize req = Fin k" "total r = Fin t"
    have "(1::rat) \<le> max 1 (min 40 k)" by simp
    then have pos: "max 1 (min 40 k) \<noteq> 0" by linarith
    from kt have "T = Fin t" "M = Fin (max 1 (min 40 k))" by (simp_all add: r_def M_def)
    then have "totalPages r = js_max (num 1) (js_ceil (js_div (Fin t) (Fin (max 1 (min 40 k)))))"
      by (simp add: r_def)
    also have "\<dots> = Fin (max 1 (of_int \<lceil>t / max 1 (min 40 k)\<rceil>))"
      using pos by simp
    also have "\<dots> = Fin (of_int (max 1 \<lceil>t / max 1 (min 40 k)\<rceil>))"
      by (simp add: max_def)
    finally show "totalPages r = Fin (of_int (max 1 \<lceil>t / max 1 (min 40 k)\<rceil>))" .
  qed
  from res 1 2 3 4
  show "\<exists>r. resources env ext req = Some (Json 200 r) \<and>
           pageSize r = js_max (num 1) (js_min (num 40) (reqPageSize req)) \<and>
           totalPages r = js_max (num 1) (js_ceil (js_div (total r) (pageSize r))) \<and>
           (\<forall>k. reqPageSize req = Fin k \<longrightarrow> pageSize r = Fin (max 1 (min 40 k))) \<and>
           (\<forall>k t. reqPageSize req = Fin k \<and> total r = Fin t \<longrightarrow>
              totalPages r = Fin (of_int (max 1 \<lceil>t / max 1 (min 40 k)\<rceil>)))"
    by blast
next
  assume a: "reqProvider req = ''openlibrary'' \<and> openlibrary_get ext (openlibraryParams req) = Inr odata"
  obtain r where o: "openlibrary ext req = Inr r"
    and ps: "pageSize r = js_max (num 1) (js_min (num 50) (reqPageSize req))"
    using a by (simp add: openlibrary_def openlibraryLimit_def Let_def)
  have res: "resources env ext req = Some (Json 200 r)"
    using a o by (simp add: resources_openlibrary)
  have "\<forall>k. reqPageSize req = Fin k \<longrightarrow> pageSize r = Fin (max 1 (min 50 k))"
    by (simp add: ps)
  with res ps
  show "\<exists>r. resources env ext req = Some (Json 200 r) \<and>
           pageSize r = js_max (num 1) (js_min (num 50) (reqPageSize req)) \<and>
           (\<forall>k. reqPageSize req = Fin k \<longrightarrow> pageSize r = Fin (max 1 (min 50 k)))"
    by blast
qed


text \<open>With a requested page size of 100 the book search answers a page size of 40 and,
  for 95 results, 3 pages; the library search answers a page size of 50.\<close>

theorem capped_page_size_witness:
  "reqProvider bigBooksReq = ''googlebooks'' \<and>
   reqPageSize bigBooksReq = Fin 100 \<and>
   (\<exists>r. resources emptyEnv bigBooksExt bigBooksReq = Some (Json 200 r) \<and>
        total r = num 95 \<and> pageSize r = num 40 \<and> totalPages r = num 3) \<and>
   reqProvider bigLibraryReq = ''openlibrary'' \<and>
   reqPageSize bigLibraryReq = Fin 100 \<and>
   (\<exists>r. resources emptyEnv bigLibraryExt bigLibraryReq = Some (Json 200 r) \<and>
        pageSize r = num 50)"
proof -
  have b: "reqProvider bigBooksReq = ''googlebooks''" "reqPageSize bigBooksReq = Fin 100"
    "books_get bigBooksExt (googlebooksParams emptyEnv bigBooksReq) =
       Inr \<lparr> totalItems = Some (num 95), gb_items = Some [] \<rparr>"
    by code_simp+
  have l: "reqProvider bigLibraryReq = ''openlibrary''" "reqPageSize bigLibraryReq = Fin 100"
    "openlibrary_get bigLibraryExt (openlibraryParams bigLibraryReq) =
       Inr \<lparr> docs = Some [], numFound = Some (num 95) \<rparr>"
    by code_simp+
  have ev: "(case resources emptyEnv bigBooksExt bigBooksReq of
               Some (Json n r) \<Rightarrow> total r | _ \<Rightarrow> NaN) = num 95"
    by code_simp
  from capped_page_size [of bigBooksReq bigBooksExt emptyEnv] b
  obtain r1 where r1: "resources emptyEnv bigBooksExt bigBooksReq = Some (Json 200 r1)"
    and p1: "pageSize r1 = Fin (max 1 (min 40 100))"
    and t1: "\<forall>k t. reqPageSize bigBooksReq = Fin k \<and> total r1 = Fin t \<longrightarrow>
              totalPages r1 = Fin (of_int (max 1 \<lceil>t / max 1 (min 40 k)\<rceil>))"
    by blast
  from ev r1 have tot: "total r1 = Fin 95" by simp
  with t1 b(2) have "totalPages r1 = Fin (of_int (max 1 \<lceil>(95::rat) / max 1 (min 40 100)\<rceil>))"
    by blast
  moreover have "\<lceil>(95::rat) / max 1 (min 40 100)\<rceil> = 3"
    by (simp add: ceiling_eq_iff)
  ultimately have tp: "totalPages r1 = num 3" by simp
  from capped_page_size [of bigLibraryReq bigLibraryExt emptyEnv] l
  obtain r2 where r2: "resources emptyEnv bigLibraryExt bigLibraryReq = Some (Json 200 r2)"
    and p2: "pageSize r2 = Fin (max 1 (min 50 100))"
    by blast
  from r1 p1 tot tp have
    "\<exists>r. resources emptyEnv bigBooksExt bigBooksReq = Some (Json 200 r) \<and>
        total r = num 95 \<and> pageSize r = num 40 \<and> totalPages r = num 3"
    by simp
  moreover from r2 p2 have
    "\<exists>r. resources emptyEnv bigLibraryExt bigLibraryReq = Some (Json 200 r) \<and>
        pageSize r = num 50"
    by simp
  ultimately show ?thesis using b l by simp
qed


subsection \<open>Validation in the chat handler\<close>

text \<open>
  Claim C9, as stated, fails: the handler looks for the API key before it looks at the
  body, so without a key a body with an empty \<open>messages\<close> array is answered with
  status 500.
\<close>

theorem chat_validation_counterexample:
  "noMessages emptyChat \<and>
   chat emptyEnv downGemini emptyChat = ChatError 500 ''GEMINI_API_KEY is not set on the server''"
  by code_simp

text \<open>
  Claim C9, amended. For every body whose \<open>messages\<close> field is absent, not an array or
  an empty array, the handler answers with an error body whose \<open>error\<close> field is a
  non-empty string: with status 400 when \<open>GEMINI_API_KEY\<close> or \<open>GOOGLE_API_KEY\<close> is set,
  and with status 500 when neither is.
\<close>

theorem chat_validation:
  assumes "noMessages body"
  shows "\<exists>n s. chat env post body = ChatError n s \<and> s \<noteq> [] \<and>
           (if truthy (or_else (GEMINI_API_KEY env) (GOOGLE_API_KEY env))
            then n = 400 \<and> s = ''Request body must include non-empty messages array''
            else n = 500 \<and> s = ''GEMINI_API_KEY is not set on the server'')"
proof (cases "truthy (or_else (GEMINI_API_KEY env) (GOOGLE_API_KEY env))")
  case True
  have "(case body of Some b \<Rightarrow> messages b | None \<Rightarrow> MsgAbsent) = MsgAbsent \<or>
        (case body of Some b \<Rightarrow> messages b | None \<Rightarrow> MsgAbsent) = MsgNotArray \<or>
        (case body of Some b \<Rightarrow> messages b | None \<Rightarrow> MsgAbsent) = MsgArray []"
    using assms by (auto simp: noMessages_def split: option.splits MessagesField.splits)
  then have "chat env post body = ChatError 400 ''Request body must include non-empty messages array''"
    using True by (auto simp: chat_def Let_def)
  with True show ?thesis by simp
next
  case False
  then have "chat env post body = ChatError 500 ''GEMINI_API_KEY is not set on the server''"
    by (simp add: chat_def Let_def)
  with False show ?thesis by simp
qed

text \<open>With a key in the environment, the empty array is answered with status 400.\<close>

theorem chat_validation_witness:
  "noMessages emptyChat \<and> truthy (or_else (GEMINI_API_KEY geminiEnv) (GOOGLE_API_KEY geminiEnv)) \<and>
   chat geminiEnv downGemini emptyChat =
     ChatError 400 ''Request body must include non-empty messages array''"
proof -
  have h: "noMessages emptyChat" by code_simp
  have k: "truthy (or_else (GEMINI_API_KEY geminiEnv) (GOOGLE_API_KEY geminiEnv))" by code_simp
  from chat_validation [OF h, of geminiEnv downGemini] k h show ?thesis by auto
qed

subsection \<open>The fallback\<close>

text \<open>
  Claim C1, as stated, fails: a request without parameters is served in mixed mode, where
  each adapter turns its own failure into an empty list. With every catalogue down the
  answer is an empty page, while the local data filtered by the same request holds both
  resources.
\<close>

theorem fallback_counterexample:
  "allDown downExt \<and>
   resources emptyEnv downExt emptyQuery =
     Some (Json 200 \<lparr> items = [], total = num 0, page = num 1, pageSize = num 12,
                       totalPages = num 1 \<rparr>) \<and>
   items (filterAndPaginate fallbackData (fallbackOptions emptyQuery)) = fallbackData \<and>
   fallbackData \<noteq> []"
proof -
  have "allDown downExt" by (simp add: allDown_def downExt_def)
  moreover have "resources emptyEnv downExt emptyQuery =
     Some (Json 200 \<lparr> items = [], total = num 0, page = num 1, pageSize = num 12,
                       totalPages = num 1 \<rparr>)" by code_simp
  moreover have "items (filterAndPaginate fallbackData (fallbackOptions emptyQuery)) = fallbackData"
    by code_simp
  moreover have "fallbackData \<noteq> []" by (simp add: fallbackData_def)
  ultimately show ?thesis by simp
qed

lemma walkTokens_fails:
  assumes "isl (get (withToken ps tok))" "js_lt (Fin (of_nat i)) p"
  shows "\<exists>e. walkTokens get ps p i tok = Some (Inl e)"
  using assms by (subst walkTokens.simps) (auto split: sum.splits)

lemma youtube_down:
  assumes "\<forall>ps. isl (youtube_get ext ps)"
  shows "\<exists>e. youtube env ext req = Some (Inl e)"
proof (cases "truthy (YOUTUBE_API_KEY env)")
  case False
  then show ?thesis by (auto simp: youtube_def split: option.splits)
next
  case True
  then obtain k where k: "YOUTUBE_API_KEY env = Some k" "k \<noteq> []"
    by (cases "YOUTUBE_API_KEY env") auto
  show ?thesis
  proof (cases "js_lt (num 1) (reqPage req)")
    case True
    then have "js_lt (Fin (of_nat 1)) (reqPage req)" by simp
    with assms obtain e where
      "walkTokens (youtube_get ext) (youtubeBaseParams k req) (reqPage req) 1 None = Some (Inl e)"
      using walkTokens_fails [of "youtube_get ext" "youtubeBaseParams k req" None 1 "reqPage req"]
      by blast
    with k True show ?thesis by (simp add: youtube_def Let_def)
  next
    case False
    from assms obtain e where "youtube_get ext (youtubeBaseParams k req) = Inl e"
      by (metis isl_def)
    with k False show ?thesis by (simp add: youtube_def Let_def youtubeFetch_def)
  qed
qed

lemma tryProvider_down:
  assumes "allDown ext" "\<not> isMixed req"
  shows "\<exists>e. tryProvider env ext req = Some (Inl e)"
proof -
  from assms(1) have d:
    "\<And>u ps hs. \<exists>e. devto_get ext u ps hs = Inl e"
    "\<And>ps. \<exists>e. books_get ext ps = Inl e"
    "\<And>g n hs. \<exists>e. freebooks_get ext g n hs = Inl e"
    "\<And>ps. \<exists>e. openlibrary_get ext ps = Inl e"
    "\<forall>ps. isl (youtube_get ext ps)"
    by (auto simp: allDown_def isl_def)
  have gb: "\<exists>e. googlebooks env ext req = Inl e"
    using d(2) [of "googlebooksParams env req"] by (auto simp: googlebooks_def)
  have fb: "\<exists>e. freebooks env ext req = Inl e"
  proof (cases "truthy (RAPIDAPI_KEY env)")
    case False
    then show ?thesis by (auto simp: freebooks_def split: option.splits)
  next
    case True
    then obtain k where k: "RAPIDAPI_KEY env = Some k" "k \<noteq> []"
      by (cases "RAPIDAPI_KEY env") auto
    from d(3) obtain e where "freebooks_get ext (freebooksGenre req) (js_max (num 1) (reqPage req))
        [(''x-rapidapi-host'', ''freebooks-api2.p.rapidapi.com''), (''x-rapidapi-key'', k)] = Inl e"
      by blast
    with k show ?thesis by (simp add: freebooks_def Let_def)
  qed
  have ol: "\<exists>e. openlibrary ext req = Inl e"
    using d(4) [of "openlibraryParams req"] by (auto simp: openlibrary_def)
  have yt: "\<exists>e. youtube env ext req = Some (Inl e)"
    using d(5) by (rule youtube_down)
  have fd: "\<exists>e. feed env ext req = Inl e"
    using d(1) [of "feedBaseUrl env req" "feedParams env req" "feedHeaders env req"]
    by (auto simp: feed_def)
  from assms(2) gb fb ol yt fd show ?thesis
    by (auto simp: tryProvider_def)
qed

lemma case_isl: "isl x \<Longrightarrow> (case x of Inl e \<Rightarrow> c | Inr d \<Rightarrow> g d) = c"
  by (cases x) simp_all

lemma mixedFeed_down:
  assumes "allDown ext"
  shows "mixedFeed env ext req =
           \<lparr> items = [], total = num 0, page = reqPage req, pageSize = reqPageSize req,
             totalPages = num 1 \<rparr>"
proof -
  from assms have d:
    "\<And>u ps hs. isl (devto_get ext u ps hs)"
    "\<And>ps. isl (books_get ext ps)"
    "\<And>ps. isl (youtube_get ext ps)"
    by (auto simp: allDown_def)
  have 1: "mixedDevTo env ext req = []"
    by (simp add: mixedDevTo_def Let_def case_isl d(1))
  have 2: "\<And>k. mixedYouTube k ext req = []"
    by (simp add: mixedYouTube_def case_isl d(3))
  have 3: "mixedBooks env ext req = []"
    by (simp add: mixedBooks_def case_isl d(2))
  have m: "concat (mixedResults env ext req) = []"
    by (simp add: mixedResults_order 1 2 3 split: option.splits)
  show ?thesis
    unfolding mixedFeed_def Let_def m by (simp add: js_slice_from_zero)
qed

lemma ceil_div_pos:
  assumes "1 \<le> (n::int)"
  shows "js_max (num 1) (js_ceil (js_div (Fin (of_nat t)) (num n))) =
         num (max 1 \<lceil>(of_nat t :: rat) / of_int n\<rceil>)"
proof -
  have "(of_int n :: rat) \<noteq> 0" using assms by simp
  then show ?thesis by (simp add: max_def)
qed

text \<open>
  Claim C1, amended. When every outgoing request fails, the handler answers with status
  200 and never with an error. Outside mixed mode the result is \<open>filterAndPaginate\<close> of
  the local data: its items are taken from the local data, \<open>total\<close> is the number of
  resources that pass the filters, and \<open>totalPages\<close> is
  \<open>max(1, ceil(total / pageSize))\<close>. In mixed mode the result is the empty page with
  \<open>total\<close> 0 and \<open>totalPages\<close> 1. For an integer page size of at least 1,
  \<open>totalPages\<close> is the integer \<open>max 1 \<lceil>total / pageSize\<rceil>\<close> in both cases.
\<close>

theorem fallback_on_failure:
  assumes "allDown ext"
  shows "\<exists>r. resources env ext req = Some (Json 200 r) \<and>
           r = (if isMixed req
                then \<lparr> items = [], total = num 0, page = reqPage req,
                       pageSize = reqPageSize req, totalPages = num 1 \<rparr>
                else filterAndPaginate fallbackData (fallbackOptions req)) \<and>
           set (items r) \<subseteq> set fallbackData \<and>
           (\<not> isMixed req \<longrightarrow>
              total r = len (applyFilters fallbackData (fallbackOptions req)) \<and>
              totalPages r = js_max (num 1) (js_ceil (js_div (total r) (pageSize r)))) \<and>
           (\<forall>n. reqPageSize req = num n \<and> 1 \<le> n \<longrightarrow>
              (\<exists>t. total r = Fin (of_nat t) \<and>
                   totalPages r = num (max 1 \<lceil>(of_nat t :: rat) / of_int n\<rceil>)))"
proof (cases "isMixed req")
  case True
  let ?r = "\<lparr> items = [], total = num 0, page = reqPage req,
              pageSize = reqPageSize req, totalPages = num 1 \<rparr>"
  have res: "resources env ext req = Some (Json 200 ?r)"
    using True assms by (simp add: resources_mixed mixedFeed_down)
  have n: "\<forall>n. reqPageSize req = num n \<and> 1 \<le> n \<longrightarrow>
              (\<exists>t. total ?r = Fin (of_nat t) \<and>
                   totalPages ?r = num (max 1 \<lceil>(of_nat t :: rat) / of_int n\<rceil>))"
  proof (intro allI impI)
    fix n assume "reqPageSize req = num n \<and> 1 \<le> n"
    have "total ?r = Fin (of_nat 0) \<and>
          totalPages ?r = num (max 1 \<lceil>(of_nat 0 :: rat) / of_int n\<rceil>)" by simp
    then show "\<exists>t. total ?r = Fin (of_nat t) \<and>
                   totalPages ?r = num (max 1 \<lceil>(of_nat t :: rat) / of_int n\<rceil>)" by blast
  qed
  from res n True show ?thesis by simp
next
  case False
  let ?r = "filterAndPaginate fallbackData (fallbackOptions req)"
  let ?f = "applyFilters fallbackData (fallbackOptions req)"
  from tryProvider_down [OF assms False, of env] obtain e
    where "tryProvider env ext req = Some (Inl e)" by blast
  then have res: "resources env ext req = Some (Json 200 ?r)"
    by (simp add: resources_def)
  have f: "total ?r = len ?f" "pageSize ?r = reqPageSize req"
    "totalPages ?r = js_max (num 1) (js_ceil (js_div (total ?r) (pageSize ?r)))"
    by (simp_all add: filterAndPaginate_def Let_def fallbackOptions_def)
  have "set (items ?r) \<subseteq> set ?f"
    by (auto simp: filterAndPaginate_def Let_def js_slice_def dest: in_set_takeD in_set_dropD)
  then have s: "set (items ?r) \<subseteq> set fallbackData"
    by (auto simp: applyFilters_filter)
  have n: "\<forall>n. reqPageSize req = num n \<and> 1 \<le> n \<longrightarrow>
              (\<exists>t. total ?r = Fin (of_nat t) \<and>
                   totalPages ?r = num (max 1 \<lceil>(of_nat t :: rat) / of_int n\<rceil>))"
  proof (intro allI impI, elim conjE)
    fix n assume n: "reqPageSize req = num n" "1 \<le> n"
    have "totalPages ?r = js_max (num 1) (js_ceil (js_div (Fin (of_nat (length ?f))) (num n)))"
      using f n by simp
    then have "totalPages ?r = num (max 1 \<lceil>(of_nat (length ?f) :: rat) / of_int n\<rceil>)"
      by (simp only: ceil_div_pos [OF n(2)])
    with f(1) show "\<exists>t. total ?r = Fin (of_nat t) \<and>
                   totalPages ?r = num (max 1 \<lceil>(of_nat t :: rat) / of_int n\<rceil>)" by blast
  qed
  from res f s n False show ?thesis by simp
qed

text \<open>A request for the book search, with every catalogue down, is answered with the
  two local resources on one page.\<close>

theorem fallback_on_failure_witness:
  "allDown downExt \<and> \<not> isMixed booksReq \<and> reqPageSize booksReq = num 12 \<and>
   (\<exists>r. resources emptyEnv downExt booksReq = Some (Json 200 r) \<and>
        items r = fallbackData \<and> total r = num 2 \<and> totalPages r = num 1)"
proof -
  have d: "allDown downExt" by (simp add: allDown_def downExt_def)
  have m: "\<not> isMixed booksReq" by code_simp
  have p: "reqPageSize booksReq = num 12" by code_simp
  have ev: "filterAndPaginate fallbackData (fallbackOptions booksReq) =
     \<lparr> items = fallbackData, total = num 2, page = num 1, pageSize = num 12, totalPages = num 1 \<rparr>"
    by code_simp
  from fallback_on_failure [OF d, of emptyEnv booksReq] m
  have "resources emptyEnv downExt booksReq =
          Some (Json 200 (filterAndPaginate fallbackData (fallbackOptions booksReq)))"
    by auto
  with ev d m p show ?thesis by simp
qed


subsection \<open>The probe of the article feed\<close>

lemma js_add_zero: "js_add b (Fin 0) = b"
  by (cases b) simp_all

lemma resources_feed:
  assumes "\<not> isMixed req"
    "reqProvider req \<notin> {''googlebooks'', ''freebooks'', ''openlibrary'', ''youtube''}"
  shows "resources env ext req =
     (case feed env ext req of
        Inr result \<Rightarrow> Some (Json 200 result)
      | Inl e \<Rightarrow> Some (Json 200 (filterAndPaginate fallbackData (fallbackOptions req))))"
  using assms by (simp add: resources_def tryProvider_def split: sum.splits)

text \<open>
  Claim C4, as stated, fails: the probe's items are counted after the local type filter.
  For a request for videos the feed's probe yields one item, an article; the filter drops
  it, and the result has \<open>totalPages = page\<close> and no extra unit in \<open>total\<close>.
\<close>

theorem probe_pagination_counterexample:
  "devto_get feedExt (feedBaseUrl emptyEnv videoReq)
     (setPage (feedParams emptyEnv videoReq) (js_add (reqPage videoReq) (num 1)))
     (feedHeaders emptyEnv videoReq) = Inr (DataArray [articleA]) \<and>
   feedItems (DataArray [articleA]) = [articleA] \<and>
   resources emptyEnv feedExt videoReq =
     Some (Json 200 \<lparr> items = [], total = num 0, page = num 1, pageSize = num 12,
                       totalPages = num 1 \<rparr>)"
  by code_simp

text \<open>
  Claim C4, amended. On the article-feed path, when the primary request answers, the
  handler answers with status 200 and the primary page after the local type filter. With
  \<open>base = (page - 1) * pageSize + items.length\<close>: if the probe for \<open>page + 1\<close> answers
  with at least one item that passes the same type filter, then \<open>total = base + 1\<close> and
  \<open>totalPages = page + 1\<close>; if the probe fails, or none of its items passes the filter,
  then \<open>total = base\<close> and \<open>totalPages = page\<close>. For integer \<open>page\<close> and \<open>pageSize\<close>,
  \<open>base\<close> is the integer \<open>(page - 1) * pageSize + items.length\<close>.
\<close>

theorem probe_pagination:
  assumes "\<not> isMixed req"
    and "reqProvider req \<notin> {''googlebooks'', ''freebooks'', ''openlibrary'', ''youtube''}"
    and "devto_get ext (feedBaseUrl env req) (feedParams env req) (feedHeaders env req) = Inr data"
  shows "\<exists>r. resources env ext req = Some (Json 200 r) \<and>
           items r = typeFilter (reqType req) (map mapDevToArticleToResource (feedItems data)) \<and>
           page r = reqPage req \<and> pageSize r = reqPageSize req \<and>
           (let probe = devto_get ext (feedBaseUrl env req)
                          (setPage (feedParams env req) (js_add (reqPage req) (num 1)))
                          (feedHeaders env req);
                base = js_add (js_mul (js_sub (page r) (num 1)) (pageSize r)) (len (items r))
            in ((\<exists>d. probe = Inr d \<and>
                      typeFilter (reqType req) (map mapDevToArticleToResource (feedItems d)) \<noteq> []) \<longrightarrow>
                  total r = js_add base (num 1) \<and> totalPages r = js_add (page r) (num 1)) \<and>
               ((isl probe \<or>
                 (\<exists>d. probe = Inr d \<and>
                      typeFilter (reqType req) (map mapDevToArticleToResource (feedItems d)) = [])) \<longrightarrow>
                  total r = base \<and> totalPages r = page r) \<and>
               (\<forall>p s. page r = num p \<and> pageSize r = num s \<longrightarrow>
                  base = num ((p - 1) * s + int (length (items r)))))"
proof -
  let ?probe = "devto_get ext (feedBaseUrl env req)
                  (setPage (feedParams env req) (js_add (reqPage req) (num 1)))
                  (feedHeaders env req)"
  let ?mapped = "typeFilter (reqType req) (map mapDevToArticleToResource (feedItems data))"
  let ?base = "js_add (js_mul (js_sub (reqPage req) (num 1)) (reqPageSize req)) (len ?mapped)"
  let ?hasNext = "feedProbe env ext req"
  let ?r = "\<lparr> items = ?mapped,
              total = js_add ?base (if ?hasNext then num 1 else num 0),
              page = reqPage req, pageSize = reqPageSize req,
              totalPages = (if ?hasNext then js_add (reqPage req) (num 1) else reqPage req) \<rparr>"
  have f: "feed env ext req = Inr ?r"
    using assms(3) by (simp add: feed_def Let_def)
  have res: "resources env ext req = Some (Json 200 ?r)"
    using assms(1,2) f by (simp add: resources_feed)
  have yes: "(\<exists>d. ?probe = Inr d \<and>
                 typeFilter (reqType req) (map mapDevToArticleToResource (feedItems d)) \<noteq> [])
             \<Longrightarrow> ?hasNext"
    by (auto simp: feedProbe_def Let_def)
  have no: "isl ?probe \<or>
            (\<exists>d. ?probe = Inr d \<and>
                 typeFilter (reqType req) (map mapDevToArticleToResource (feedItems d)) = [])
            \<Longrightarrow> \<not> ?hasNext"
    by (auto simp: feedProbe_def Let_def isl_def)
  have ints: "\<forall>p s. reqPage req = num p \<and> reqPageSize req = num s \<longrightarrow>
                ?base = num ((p - 1) * s + int (length ?mapped))"
    by (simp add: js_sub_def)
  show ?thesis
    apply (rule exI [of _ ?r])
    apply (simp only: res Let_def PaginatedResult.simps)
    using yes no ints by (auto simp: js_add_zero)
qed


text \<open>A request for articles: with a feed that has a next page, and with a feed whose
  probe fails.\<close>

theorem probe_pagination_witness:
  "\<not> isMixed articleReq \<and>
   reqProvider articleReq \<notin> {''googlebooks'', ''freebooks'', ''openlibrary'', ''youtube''} \<and>
   devto_get feedExt (feedBaseUrl emptyEnv articleReq) (feedParams emptyEnv articleReq)
     (feedHeaders emptyEnv articleReq) = Inr (DataArray [articleA]) \<and>
   (\<exists>r. resources emptyEnv feedExt articleReq = Some (Json 200 r) \<and>
        length (items r) = 1 \<and> total r = num 2 \<and> page r = num 1 \<and> totalPages r = num 2) \<and>
   devto_get lastPageExt (feedBaseUrl emptyEnv articleReq) (feedParams emptyEnv articleReq)
     (feedHeaders emptyEnv articleReq) = Inr (DataArray [articleA]) \<and>
   isl (devto_get lastPageExt (feedBaseUrl emptyEnv articleReq)
          (setPage (feedParams emptyEnv articleReq) (js_add (reqPage articleReq) (num 1)))
          (feedHeaders emptyEnv articleReq)) \<and>
   (\<exists>r. resources emptyEnv lastPageExt articleReq = Some (Json 200 r) \<and>
        length (items r) = 1 \<and> total r = num 1 \<and> page r = num 1 \<and> totalPages r = num 1)"
proof -
  have h1: "\<not> isMixed articleReq" by code_simp
  have h2: "reqProvider articleReq \<notin> {''googlebooks'', ''freebooks'', ''openlibrary'', ''youtube''}"
    by code_simp
  have h3: "devto_get feedExt (feedBaseUrl emptyEnv articleReq) (feedParams emptyEnv articleReq)
     (feedHeaders emptyEnv articleReq) = Inr (DataArray [articleA])" by code_simp
  have h4: "devto_get lastPageExt (feedBaseUrl emptyEnv articleReq) (feedParams emptyEnv articleReq)
     (feedHeaders emptyEnv articleReq) = Inr (DataArray [articleA])" by code_simp
  have down: "isl (devto_get lastPageExt (feedBaseUrl emptyEnv articleReq)
          (setPage (feedParams emptyEnv articleReq) (js_add (reqPage articleReq) (num 1)))
          (feedHeaders emptyEnv articleReq))" by code_simp
  have ev1: "(case resources emptyEnv feedExt articleReq of
                Some (Json n r) \<Rightarrow> (length (items r), total r, page r, totalPages r)
              | _ \<Rightarrow> (0, NaN, NaN, NaN)) = (1, num 2, num 1, num 2)" by code_simp
  have ev2: "(case resources emptyEnv lastPageExt articleReq of
                Some (Json n r) \<Rightarrow> (length (items r), total r, page r, totalPages r)
              | _ \<Rightarrow> (0, NaN, NaN, NaN)) = (1, num 1, num 1, num 1)" by code_simp
  from probe_pagination [OF h1 h2 h3] obtain r1
    where r1: "resources emptyEnv feedExt articleReq = Some (Json 200 r1)" by blast
  from probe_pagination [OF h1 h2 h4] obtain r2
    where r2: "resources emptyEnv lastPageExt articleReq = Some (Json 200 r2)" by blast
  from ev1 r1 have
    "\<exists>r. resources emptyEnv feedExt articleReq = Some (Json 200 r) \<and>
        length (items r) = 1 \<and> total r = num 2 \<and> page r = num 1 \<and> totalPages r = num 2"
    by simp
  moreover from ev2 r2 have
    "\<exists>r. resources emptyEnv lastPageExt articleReq = Some (Json 200 r) \<and>
        length (items r) = 1 \<and> total r = num 1 \<and> page r = num 1 \<and> totalPages r = num 1"
    by simp
  ultimately show ?thesis using h1 h2 h3 h4 down by blast
qed

subsection \<open>Page sizes that are not positive\<close>

text \<open>
  Claim C5 does not hold of the handler. The request \<open>?provider=youtube&pageSize=0\<close>,
  served without a video key, reaches the fallback with a page size of 0: nothing clamps
  it, the division \<open>total / pageSize\<close> is \<open>2 / 0\<close>, and \<open>totalPages\<close> is infinite. With
  \<open>pageSize=abc\<close> the page size and \<open>totalPages\<close> are both NaN.
\<close>

theorem unclamped_page_size:
  "q_pageSize zeroSizeReq = Some (num 0) \<and>
   resources emptyEnv downExt zeroSizeReq =
     Some (Json 200 \<lparr> items = [], total = num 2, page = num 1, pageSize = num 0,
                       totalPages = PosInf \<rparr>) \<and>
   q_pageSize nanSizeReq = Some NaN \<and>
   resources emptyEnv downExt nanSizeReq =
     Some (Json 200 \<lparr> items = [], total = num 2, page = num 1, pageSize = NaN,
                       totalPages = NaN \<rparr>)"
  by code_simp

subsection \<open>A page beyond the last token\<close>

text \<open>When the first hop of the walk comes back without a token, the branch answers
  with the result of the request that carries no token, which is the request for the first
  page.\<close>

lemma walkTokens_no_token:
  assumes "js_lt (Fin (of_nat i)) p" "get (withToken ps tok) = Inr d" "\<not> truthy (nextPageToken d)"
  shows "walkTokens get ps p i tok = Some (Inr (nextPageToken d))"
  using assms by (subst walkTokens.simps) simp

lemma youtube_past_end:
  assumes "YOUTUBE_API_KEY env = Some k" "k \<noteq> []"
    and "js_lt (num 1) (reqPage req)"
    and "youtube_get ext (withToken (youtubeBaseParams k req) None) = Inr d"
    and "\<not> truthy (nextPageToken d)"
  shows "youtube env ext req = Some (youtubeFetch ext req (youtubeBaseParams k req))"
proof -
  from assms(3) have "js_lt (Fin (of_nat 1)) (reqPage req)" by simp
  then have "walkTokens (youtube_get ext) (youtubeBaseParams k req) (reqPage req) 1 None =
               Some (Inr (nextPageToken d))"
    using assms(4,5) by (rule walkTokens_no_token)
  then show ?thesis
    using assms(1,2,3,5) by (simp add: youtube_def Let_def)
qed

text \<open>
  Claim C7 does not hold of the handler. The video search has a single page. The walk for
  page 3 ends at its first hop without a token, the final request is then sent without a
  token, and the answer for page 3 carries the items of page 1.
\<close>

theorem cursor_walk_past_end:
  "(\<exists>r. resources youtubeEnv onePageExt page1Req = Some (Json 200 r) \<and>
        map id_r (items r) = [''v1''] \<and> page r = num 1 \<and> totalPages r = num 1) \<and>
   (\<exists>r. resources youtubeEnv onePageExt page3Req = Some (Json 200 r) \<and>
        map id_r (items r) = [''v1''] \<and> page r = num 3 \<and> total r = num 25 \<and>
        totalPages r = num 3)"
proof -
  have 1: "(case resources youtubeEnv onePageExt page1Req of
              Some (Json n r) \<Rightarrow> (n, map id_r (items r), page r, total r, totalPages r)
            | _ \<Rightarrow> (0, [], NaN, NaN, NaN)) = (200, [''v1''], num 1, num 1, num 1)"
    by code_simp
  have 3: "(case resources youtubeEnv onePageExt page3Req of
              Some (Json n r) \<Rightarrow> (n, map id_r (items r), page r, total r, totalPages r)
            | _ \<Rightarrow> (0, [], NaN, NaN, NaN)) = (200, [''v1''], num 3, num 25, num 3)"
    by code_simp
  from 1 have "\<exists>r. resources youtubeEnv onePageExt page1Req = Some (Json 200 r) \<and>
        map id_r (items r) = [''v1''] \<and> page r = num 1 \<and> totalPages r = num 1"
    by (auto split: option.splits Response.splits)
  moreover from 3 have "\<exists>r. resources youtubeEnv onePageExt page3Req = Some (Json 200 r) \<and>
        map id_r (items r) = [''v1''] \<and> page r = num 3 \<and> total r = num 25 \<and>
        totalPages r = num 3"
    by (auto split: option.splits Response.splits)
  ultimately show ?thesis by blast
qed

subsection \<open>The free-book listing and the page size\<close>

text \<open>
  Claim C2 does not hold of the handler. The free-book listing is not told the page
  size and its page is not truncated: with a page size of 1 and a listing that returns
  two books, the result has two items.
\<close>

theorem freebooks_page_overflow:
  "\<exists>r. resources fbEnv fbExt fbReq = Some (Json 200 r) \<and>
       map title (items r) = [''First'', ''Second''] \<and> pageSize r = num 1 \<and>
       page r = num 1 \<and> totalPages r = num 2 \<and>
       \<not> js_le (len (items r)) (pageSize r)"
proof -
  have "(case resources fbEnv fbExt fbReq of
              Some (Json n r) \<Rightarrow> (n, map title (items r), page r, pageSize r, totalPages r)
            | _ \<Rightarrow> (0, [], NaN, NaN, NaN)) = (200, [''First'', ''Second''], num 1, num 1, num 2)"
    by code_simp
  then show ?thesis
    by (auto simp: js_le_Fin split: option.splits Response.splits)
qed


end
